theory Spec2Isabelle
  imports Main "HOL-Library.AList"
begin

section \<open>Repository manifests: data model of \<^verbatim>\<open>pkg/repository/manifest/repo.go\<close>\<close>

text \<open>
  The embedding follows \<^verbatim>\<open>repo.go\<close> function by function. Go values are modelled as
  follows.
  \<^item> A Go map that is only read and written by key is a partial function wrapped in
    \<open>option\<close>: \<open>None\<close> is the \<^verbatim>\<open>nil\<close> map, \<open>Some f\<close> a map made by
    \<^verbatim>\<open>make\<close> or by a literal. Reading a \<^verbatim>\<open>nil\<close> map finds no key.
  \<^item> A Go map that is iterated with \<^verbatim>\<open>range\<close> is an association list; the order of
    the list is the order in which the runtime happens to visit the keys, so a statement
    for every list is a statement for every iteration order. Keys of a Go map are unique,
    which theorems assume as \<open>distinct (map fst m)\<close> where it matters.
  \<^item> A struct is a record; the embedded \<^verbatim>\<open>SignedBase\<close> is a record extension.
  \<^item> A pointer receiver mutated in place is a value passed in and returned updated.
  \<^item> An \<^verbatim>\<open>error\<close> is a value carrying its message; a failed type assertion is
    \<open>Panic\<close>.
  \<^item> \<^verbatim>\<open>time.Time\<close> and \<^verbatim>\<open>time.Duration\<close> are integers on one time line,
    \<^verbatim>\<open>Add\<close> is addition; \<^verbatim>\<open>Format(time.RFC3339)\<close> and
    \<^verbatim>\<open>json.Marshal\<close> belong to the Go standard library and are parameters
    (\<open>rfc3339\<close>, \<open>marshal\<close>) of the functions that call them.
\<close>

datatype error = Error string | Panic string

definition entries :: "('k \<rightharpoonup> 'v) option \<Rightarrow> ('k \<rightharpoonup> 'v)" where
  "entries m = (case m of None \<Rightarrow> Map.empty | Some f \<Rightarrow> f)"

subsection \<open>The manifest type registry\<close>

text \<open>
  The table \<^verbatim>\<open>types\<close> is declared outside \<^verbatim>\<open>repo.go\<close>; the code reads the fields
  \<^verbatim>\<open>filename\<close>, \<^verbatim>\<open>expire\<close> and \<^verbatim>\<open>threshold\<close> of its entries. It is a
  parameter \<open>types\<close> of every function that consults it. Indexing a Go map with a key it
  does not hold yields the zero value.
\<close>

record ty =
  filename :: string
  expire :: int
  threshold :: nat

type_synonym registry = "(string \<times> ty) list"

definition types_at :: "registry \<Rightarrow> string \<Rightarrow> ty" where
  "types_at types k =
     (case map_of types k of
        Some val \<Rightarrow> val
      | None \<Rightarrow> \<lparr>filename = [], expire = 0, threshold = 0\<rparr>)"

text \<open>
  Modelled from the spec: the kind names \<^verbatim>\<open>ManifestTypeRoot\<close>,
  \<^verbatim>\<open>ManifestTypeIndex\<close>, \<^verbatim>\<open>ManifestTypeSnapshot\<close> and
  \<^verbatim>\<open>ManifestTypeTimestamp\<close> are string constants declared outside \<^verbatim>\<open>repo.go\<close>.
  The spec lists the kinds Root, Index, Snapshot, Timestamp as a closed enumeration of
  different kinds; the constants are four different strings.
\<close>

definition ManifestTypeRoot :: string where
  "ManifestTypeRoot = ''root''"

definition ManifestTypeIndex :: string where
  "ManifestTypeIndex = ''index''"

definition ManifestTypeSnapshot :: string where
  "ManifestTypeSnapshot = ''snapshot''"

definition ManifestTypeTimestamp :: string where
  "ManifestTypeTimestamp = ''timestamp''"

text \<open>
  Modelled from the spec: \<^verbatim>\<open>CurrentSpecVersion\<close> is declared outside
  \<^verbatim>\<open>repo.go\<close>; the spec calls it a fixed protocol-version string, constant across all
  manifests, and gives no value. No statement below depends on the value.
\<close>

definition CurrentSpecVersion :: string where
  "CurrentSpecVersion = ''0.1.0''"

subsection \<open>Manifest payloads\<close>

record FileVersion =
  Version :: nat

record FileHash =
  Hashes :: "(string \<rightharpoonup> string) option"
  Length :: nat

record SignedBase =
  Ty :: string
  SpecVersion :: string
  Expires :: string
  Version :: nat

text \<open>
  Modelled from the spec: the type \<^verbatim>\<open>KeyInfo\<close> is declared outside \<^verbatim>\<open>repo.go\<close>;
  the spec calls it public-key-info and says nothing of its fields. It is an opaque
  string here.
\<close>

type_synonym KeyInfo = string

record Role =
  URL :: string
  Threshold :: nat
  Keys :: "(string \<rightharpoonup> KeyInfo) option"

record Root = SignedBase +
  Roles :: "(string \<rightharpoonup> Role) option"

text \<open>
  Modelled from the spec: the types \<^verbatim>\<open>Owner\<close> and \<^verbatim>\<open>Component\<close> of the index
  are declared outside \<^verbatim>\<open>repo.go\<close>; the index is created with all three collections
  empty and \<^verbatim>\<open>repo.go\<close> never reads them.
\<close>

typedecl Owner
typedecl Component

record Index = SignedBase +
  Owners :: "(string \<rightharpoonup> Owner) option"
  Components :: "(string \<rightharpoonup> Component) option"
  DefaultComponents :: "string list"

record Snapshot = SignedBase +
  Meta :: "(string \<rightharpoonup> FileVersion) option"

record Timestamp = SignedBase +
  Meta :: "(string \<rightharpoonup> FileHash) option"

text \<open>
  The interface \<^verbatim>\<open>ValidManifest\<close> is implemented by the four payloads that
  \<^verbatim>\<open>repo.go\<close> constructs. \<^verbatim>\<open>Base()\<close> returns the embedded \<^verbatim>\<open>SignedBase\<close>.
\<close>

datatype ValidManifest =
  RootManifest Root
  | IndexManifest Index
  | SnapshotManifest Snapshot
  | TimestampManifest Timestamp

fun Base :: "ValidManifest \<Rightarrow> SignedBase" where
  "Base (RootManifest r) = SignedBase.truncate r"
| "Base (IndexManifest i) = SignedBase.truncate i"
| "Base (SnapshotManifest s) = SignedBase.truncate s"
| "Base (TimestampManifest t) = SignedBase.truncate t"

text \<open>
  Modelled from the spec: the method \<^verbatim>\<open>Filename()\<close> of \<^verbatim>\<open>SignedBase\<close> and of
  \<^verbatim>\<open>ValidManifest\<close> is declared outside \<^verbatim>\<open>repo.go\<close>. The spec maps each kind,
  via the registry, to its filename, and writes a role's url as
  \<^verbatim>\<open>"/" + filename(target.kind)\<close>: the filename of a manifest is the registry's
  filename for the manifest's kind field.
\<close>

definition Filename :: "registry \<Rightarrow> 'a SignedBase_scheme \<Rightarrow> string" where
  "Filename types b = filename (types_at types (Ty b))"

definition ValidManifest_Filename :: "registry \<Rightarrow> ValidManifest \<Rightarrow> string" where
  "ValidManifest_Filename types m = Filename types (Base m)"

subsection \<open>Constructors\<close>

definition NewRoot :: "registry \<Rightarrow> (int \<Rightarrow> string) \<Rightarrow> int \<Rightarrow> Root" where
  "NewRoot types rfc3339 initTime =
     \<lparr>Ty = ManifestTypeRoot,
      SpecVersion = CurrentSpecVersion,
      Expires = rfc3339 (initTime + expire (types_at types ManifestTypeRoot)),
      Version = 1,
      Roles = Some Map.empty\<rparr>"

definition NewIndex :: "registry \<Rightarrow> (int \<Rightarrow> string) \<Rightarrow> int \<Rightarrow> Index" where
  "NewIndex types rfc3339 initTime =
     \<lparr>Ty = ManifestTypeIndex,
      SpecVersion = CurrentSpecVersion,
      Expires = rfc3339 (initTime + expire (types_at types ManifestTypeIndex)),
      Version = 1,
      Owners = Some Map.empty,
      Components = Some Map.empty,
      DefaultComponents = []\<rparr>"

definition NewSnapshot :: "registry \<Rightarrow> (int \<Rightarrow> string) \<Rightarrow> int \<Rightarrow> Snapshot" where
  "NewSnapshot types rfc3339 initTime =
     \<lparr>Ty = ManifestTypeSnapshot,
      SpecVersion = CurrentSpecVersion,
      Expires = rfc3339 (initTime + expire (types_at types ManifestTypeSnapshot)),
      Version = 0,
      Snapshot.Meta = None\<rparr>"

definition NewTimestamp :: "registry \<Rightarrow> (int \<Rightarrow> string) \<Rightarrow> int \<Rightarrow> Timestamp" where
  "NewTimestamp types rfc3339 initTime =
     \<lparr>Ty = ManifestTypeTimestamp,
      SpecVersion = CurrentSpecVersion,
      Expires = rfc3339 (initTime + expire (types_at types ManifestTypeTimestamp)),
      Version = 1,
      Timestamp.Meta = None\<rparr>"

subsection \<open>\<^verbatim>\<open>SetVersions\<close>, \<^verbatim>\<open>SetSnapshot\<close>, \<^verbatim>\<open>SetRole\<close>\<close>

text \<open>The \<^verbatim>\<open>range\<close> loop of \<^verbatim>\<open>SetVersions\<close>, over the manifests in the order visited.\<close>

fun SetVersions_loop ::
  "registry \<Rightarrow> (string \<times> ValidManifest) list \<Rightarrow> (string \<rightharpoonup> FileVersion) \<Rightarrow> (string \<rightharpoonup> FileVersion)"
where
  "SetVersions_loop types [] meta = meta"
| "SetVersions_loop types ((k, m) # rest) meta =
     SetVersions_loop types rest
       (meta(ValidManifest_Filename types m \<mapsto> \<lparr>FileVersion.Version = Version (Base m)\<rparr>))"

definition SetVersions ::
  "registry \<Rightarrow> Snapshot \<Rightarrow> (string \<times> ValidManifest) list \<Rightarrow> Snapshot"
where
  "SetVersions types manifest manifestList =
     (let meta = (case Snapshot.Meta manifest of None \<Rightarrow> Map.empty | Some f \<Rightarrow> f)
      in manifest\<lparr>Snapshot.Meta := Some (SetVersions_loop types manifestList meta)\<rparr>)"

text \<open>
  \<^verbatim>\<open>SetSnapshot\<close> returns the receiver and an error; the receiver returned is also
  the state of the timestamp after the call.
\<close>

definition SetSnapshot ::
  "registry \<Rightarrow> (Snapshot \<Rightarrow> error + string) \<Rightarrow> Timestamp \<Rightarrow> Snapshot \<Rightarrow> Timestamp \<times> error option"
where
  "SetSnapshot types marshal manifest s =
     (case marshal s of
        Inl err \<Rightarrow> (manifest, Some err)
      | Inr bytes \<Rightarrow>
          (let meta = (case Timestamp.Meta manifest of None \<Rightarrow> Map.empty | Some f \<Rightarrow> f)
           in (manifest\<lparr>Timestamp.Meta :=
                 Some (meta(Filename types s \<mapsto>
                   \<lparr>Hashes = Some [''sha256'' \<mapsto> ''TODO''], Length = length bytes\<rparr>))\<rparr>,
               None)))"

definition SetRole :: "registry \<Rightarrow> Root \<Rightarrow> ValidManifest \<Rightarrow> Root" where
  "SetRole types manifest m =
     (let roles = (case Roles manifest of None \<Rightarrow> Map.empty | Some f \<Rightarrow> f)
      in manifest\<lparr>Roles :=
           Some (roles(Ty (Base m) \<mapsto>
             \<lparr>URL = ''/'' @ ValidManifest_Filename types m,
              Threshold = threshold (types_at types (Ty (Base m))),
              Keys = Some Map.empty\<rparr>))\<rparr>)"

subsection \<open>\<^verbatim>\<open>Init\<close>\<close>

text \<open>
  The loop over \<^verbatim>\<open>types\<close> in \<^verbatim>\<open>Init\<close>: the second argument is what remains to be
  visited. The root manifest is reached through the map at every step, as in the source;
  the updated root is stored back under the same key, which is what mutation through the
  pointer held by the map amounts to.
\<close>

definition not_initialized :: "string \<Rightarrow> error" where
  "not_initialized ty =
     Error (''manifest '' @ [CHR 0x27] @ ty @ [CHR 0x27] @ '' not initialized porperly'')"

fun Init_loop ::
  "registry \<Rightarrow> (string \<times> ty) list \<Rightarrow> (string \<times> ValidManifest) list
    \<Rightarrow> error + (string \<times> ValidManifest) list"
where
  "Init_loop types [] manifests = Inr manifests"
| "Init_loop types ((ty, val) # rest) manifests =
     (if filename val = [] then Init_loop types rest manifests
      else
        (case map_of manifests ty of
           Some m \<Rightarrow>
             (case map_of manifests ManifestTypeRoot of
                Some (RootManifest root) \<Rightarrow>
                  Init_loop types rest
                    (AList.update ManifestTypeRoot (RootManifest (SetRole types root m)) manifests)
              | _ \<Rightarrow> Inl (Panic ''interface conversion''))
         | None \<Rightarrow> Inl (not_initialized ty)))"

text \<open>
  Everything \<^verbatim>\<open>Init\<close> does before \<^verbatim>\<open>batchSaveManifests\<close>: the result is the error
  returned early, or the manifest set handed to \<^verbatim>\<open>batchSaveManifests\<close>. The right-hand
  side of the assignment to \<^verbatim>\<open>manifests[ManifestTypeSnapshot]\<close> is evaluated before the
  assignment, so \<^verbatim>\<open>SetVersions\<close> receives the map holding the root and the index.
\<close>

definition InitManifests ::
  "registry \<Rightarrow> (int \<Rightarrow> string) \<Rightarrow> (Snapshot \<Rightarrow> error + string) \<Rightarrow> int
    \<Rightarrow> error + (string \<times> ValidManifest) list"
where
  "InitManifests types rfc3339 marshal initTime =
     (let manifests = [];
          manifests = AList.update ManifestTypeRoot
                        (RootManifest (NewRoot types rfc3339 initTime)) manifests;
          manifests = AList.update ManifestTypeIndex
                        (IndexManifest (NewIndex types rfc3339 initTime)) manifests;
          manifests = AList.update ManifestTypeSnapshot
                        (SnapshotManifest
                          (SetVersions types (NewSnapshot types rfc3339 initTime) manifests))
                        manifests
      in (case map_of manifests ManifestTypeSnapshot of
            Some (SnapshotManifest s) \<Rightarrow>
              (case SetSnapshot types marshal (NewTimestamp types rfc3339 initTime) s of
                 (timestamp, Some err) \<Rightarrow> Inl err
               | (timestamp, None) \<Rightarrow>
                   Init_loop types types
                     (AList.update ManifestTypeTimestamp (TimestampManifest timestamp) manifests))
          | _ \<Rightarrow> Inl (Panic ''interface conversion'')))"

text \<open>
  \<^verbatim>\<open>batchSaveManifests\<close> is declared outside \<^verbatim>\<open>repo.go\<close>; it is a parameter that
  takes the destination, the manifest set and the state \<open>fs\<close> of the file system and returns
  its error, if any, and the new state of the file system.
\<close>

definition Init ::
  "registry \<Rightarrow> (int \<Rightarrow> string) \<Rightarrow> (Snapshot \<Rightarrow> error + string)
    \<Rightarrow> (string \<Rightarrow> (string \<times> ValidManifest) list \<Rightarrow> 'fs \<Rightarrow> error option \<times> 'fs)
    \<Rightarrow> string \<Rightarrow> int \<Rightarrow> 'fs \<Rightarrow> error option \<times> 'fs"
where
  "Init types rfc3339 marshal batchSaveManifests dst initTime fs =
     (case InitManifests types rfc3339 marshal initTime of
        Inl err \<Rightarrow> (Some err, fs)
      | Inr manifests \<Rightarrow> batchSaveManifests dst manifests fs)"

section \<open>Auxiliary definitions for the statements\<close>

text \<open>
  The keys under which \<^verbatim>\<open>Init\<close> stores a manifest before its loop over the registry,
  and the registry entries the loop rejects: a kind with a filename and no manifest.
\<close>

definition bootstrap_kinds :: "string set" where
  "bootstrap_kinds =
     {ManifestTypeRoot, ManifestTypeIndex, ManifestTypeSnapshot, ManifestTypeTimestamp}"

definition missing :: "string \<times> ty \<Rightarrow> bool" where
  "missing e = (filename (snd e) \<noteq> [] \<and> fst e \<notin> bootstrap_kinds)"

text \<open>The role that \<^verbatim>\<open>SetRole\<close> installs for a manifest of kind \<open>k\<close>.\<close>

definition role_for :: "registry \<Rightarrow> string \<Rightarrow> Role" where
  "role_for types k =
     \<lparr>URL = ''/'' @ filename (types_at types k),
      Threshold = threshold (types_at types k),
      Keys = Some Map.empty\<rparr>"

text \<open>
  The snapshot and the timestamp as \<^verbatim>\<open>Init\<close> builds them, and the manifest set as
  it stands when the loop over the registry starts (\<open>n\<close> is the length of the serialized
  snapshot).
\<close>

definition bootstrap_snapshot :: "registry \<Rightarrow> (int \<Rightarrow> string) \<Rightarrow> int \<Rightarrow> Snapshot" where
  "bootstrap_snapshot types rfc3339 initTime =
     SetVersions types (NewSnapshot types rfc3339 initTime)
       [(ManifestTypeRoot, RootManifest (NewRoot types rfc3339 initTime)),
        (ManifestTypeIndex, IndexManifest (NewIndex types rfc3339 initTime))]"

definition bootstrap_timestamp :: "registry \<Rightarrow> (int \<Rightarrow> string) \<Rightarrow> int \<Rightarrow> nat \<Rightarrow> Timestamp" where
  "bootstrap_timestamp types rfc3339 initTime n =
     (NewTimestamp types rfc3339 initTime)\<lparr>Timestamp.Meta :=
        Some [Filename types (bootstrap_snapshot types rfc3339 initTime) \<mapsto>
          \<lparr>Hashes = Some [''sha256'' \<mapsto> ''TODO''], Length = n\<rparr>]\<rparr>"

definition bootstrap_manifests ::
  "registry \<Rightarrow> (int \<Rightarrow> string) \<Rightarrow> int \<Rightarrow> nat \<Rightarrow> (string \<times> ValidManifest) list"
where
  "bootstrap_manifests types rfc3339 initTime n =
     [(ManifestTypeRoot, RootManifest (NewRoot types rfc3339 initTime)),
      (ManifestTypeIndex, IndexManifest (NewIndex types rfc3339 initTime)),
      (ManifestTypeSnapshot, SnapshotManifest (bootstrap_snapshot types rfc3339 initTime)),
      (ManifestTypeTimestamp, TimestampManifest (bootstrap_timestamp types rfc3339 initTime n))]"

text \<open>The digest a timestamp records for file \<open>f\<close> under algorithm \<open>alg\<close>, if any.\<close>

definition recorded_hash :: "Timestamp \<Rightarrow> string \<Rightarrow> string \<Rightarrow> string option" where
  "recorded_hash t f alg =
     (case entries (Timestamp.Meta t) f of
        None \<Rightarrow> None
      | Some h \<Rightarrow> entries (Hashes h) alg)"

subsection \<open>Concrete inputs\<close>

text \<open>
  Modelled from the spec: the contents of \<^verbatim>\<open>types\<close> are declared outside
  \<^verbatim>\<open>repo.go\<close>. \<open>scenario_types\<close> is the registry of the spec's scenarios A and D: the
  four core kinds with the filenames the spec gives and threshold 1, and the component
  kind with an empty filename. \<open>scenario_B_types\<close> is the registry of scenario B, which
  declares a fifth kind with a filename. The general theorems hold for every registry;
  these are the inputs of the concrete evaluations. \<open>two_missing_types\<close> declares a
  sixth kind with a filename after the fifth.
\<close>

definition scenario_types :: registry where
  "scenario_types =
     [(ManifestTypeRoot, \<lparr>filename = ''root.json'', expire = 31536000, threshold = 1\<rparr>),
      (ManifestTypeIndex, \<lparr>filename = ''index.json'', expire = 31536000, threshold = 1\<rparr>),
      (''component'', \<lparr>filename = [], expire = 31536000, threshold = 1\<rparr>),
      (ManifestTypeSnapshot, \<lparr>filename = ''snapshot.json'', expire = 86400, threshold = 1\<rparr>),
      (ManifestTypeTimestamp, \<lparr>filename = ''timestamp.json'', expire = 86400, threshold = 1\<rparr>)]"

definition scenario_B_types :: registry where
  "scenario_B_types =
     scenario_types @ [(''mirror'', \<lparr>filename = ''mirror.json'', expire = 86400, threshold = 1\<rparr>)]"

definition two_missing_types :: registry where
  "two_missing_types =
     scenario_B_types @ [(''zeta'', \<lparr>filename = ''zeta.json'', expire = 86400, threshold = 1\<rparr>)]"

text \<open>
  Instances of the library parameters for the concrete evaluations: a time format, a
  serialization that succeeds and depends on the ledger entry of the index, a
  serialization that fails, and a file system that is the list of the paths written.
\<close>

definition example_rfc3339 :: "int \<Rightarrow> string" where
  "example_rfc3339 t = (if t < 31536000 then ''1970'' else ''1971 or later'')"

definition example_marshal :: "Snapshot \<Rightarrow> error + string" where
  "example_marshal s =
     Inr (Ty s @ '' '' @ Expires s @ '' '' @
          (case entries (Snapshot.Meta s) ''index.json'' of
             None \<Rightarrow> []
           | Some v \<Rightarrow> replicate (FileVersion.Version v) (CHR ''i'')))"

definition failing_marshal :: "Snapshot \<Rightarrow> error + string" where
  "failing_marshal s = Inl (Error ''json: unsupported value'')"

definition example_save ::
  "string \<Rightarrow> (string \<times> ValidManifest) list \<Rightarrow> string list \<Rightarrow> error option \<times> string list"
where
  "example_save dst manifests fs = (None, map (\<lambda>(k, m). dst @ ''/'' @ k) manifests @ fs)"

text \<open>
  A snapshot whose ledger already holds an entry, the manifest list that \<^verbatim>\<open>Init\<close>
  passes to \<^verbatim>\<open>SetVersions\<close>, and a manifest list in which two root manifests of
  different versions sit under two keys.
\<close>

definition stale_snapshot :: Snapshot where
  "stale_snapshot =
     \<lparr>Ty = ManifestTypeSnapshot, SpecVersion = CurrentSpecVersion, Expires = ''1970'',
      Version = 0, Snapshot.Meta = Some [''old.json'' \<mapsto> \<lparr>FileVersion.Version = 7\<rparr>]\<rparr>"

definition root_and_index :: "(string \<times> ValidManifest) list" where
  "root_and_index =
     [(ManifestTypeRoot, RootManifest (NewRoot scenario_types example_rfc3339 0)),
      (ManifestTypeIndex, IndexManifest (NewIndex scenario_types example_rfc3339 0))]"

definition two_roots :: "(string \<times> ValidManifest) list" where
  "two_roots =
     [(''a'', RootManifest (NewRoot scenario_types example_rfc3339 0)),
      (''b'', RootManifest ((NewRoot scenario_types example_rfc3339 0)\<lparr>Version := 2\<rparr>))]"

text \<open>
  A root whose role for the index holds a key, and the key that a root holds for a kind
  under a key id, if any.
\<close>

definition keyed_root :: Root where
  "keyed_root =
     (NewRoot scenario_types example_rfc3339 0)\<lparr>Roles :=
        Some [ManifestTypeIndex \<mapsto>
          \<lparr>URL = ''/index.json'', Threshold = 1, Keys = Some [''key-1'' \<mapsto> ''public key'']\<rparr>]\<rparr>"

definition role_key :: "Root \<Rightarrow> string \<Rightarrow> string \<Rightarrow> KeyInfo option" where
  "role_key r k key_id =
     (case entries (Roles r) k of
        None \<Rightarrow> None
      | Some role \<Rightarrow> entries (Keys role) key_id)"

section \<open>Basic facts\<close>

lemmas ManifestType_defs =
  ManifestTypeRoot_def ManifestTypeIndex_def ManifestTypeSnapshot_def ManifestTypeTimestamp_def

lemmas scenario_defs = scenario_types_def ManifestType_defs types_at_def
  ValidManifest_Filename_def Filename_def

lemma ManifestType_distinct:
  "ManifestTypeRoot \<noteq> ManifestTypeIndex" "ManifestTypeRoot \<noteq> ManifestTypeSnapshot"
  "ManifestTypeRoot \<noteq> ManifestTypeTimestamp" "ManifestTypeIndex \<noteq> ManifestTypeSnapshot"
  "ManifestTypeIndex \<noteq> ManifestTypeTimestamp" "ManifestTypeSnapshot \<noteq> ManifestTypeTimestamp"
  by (simp_all add: ManifestType_defs)

lemma entries_simps [simp]: "entries None = Map.empty" "entries (Some f) = f"
  by (simp_all add: entries_def)

lemma truncate_fields [simp]:
  "Ty (SignedBase.truncate b) = Ty b"
  "SpecVersion (SignedBase.truncate b) = SpecVersion b"
  "Expires (SignedBase.truncate b) = Expires b"
  "SignedBase.Version (SignedBase.truncate b) = SignedBase.Version b"
  by (simp_all add: SignedBase.truncate_def)

lemma New_fields [simp]:
  "Ty (NewRoot types rfc3339 initTime) = ManifestTypeRoot"
  "Ty (NewIndex types rfc3339 initTime) = ManifestTypeIndex"
  "Ty (NewSnapshot types rfc3339 initTime) = ManifestTypeSnapshot"
  "Ty (NewTimestamp types rfc3339 initTime) = ManifestTypeTimestamp"
  "Version (NewRoot types rfc3339 initTime) = 1"
  "Version (NewIndex types rfc3339 initTime) = 1"
  "Version (NewSnapshot types rfc3339 initTime) = 0"
  "Version (NewTimestamp types rfc3339 initTime) = 1"
  by (simp_all add: NewRoot_def NewIndex_def NewSnapshot_def NewTimestamp_def)

lemma types_at_distinct:
  "distinct (map fst types) \<Longrightarrow> (k, val) \<in> set types \<Longrightarrow> types_at types k = val"
  by (simp add: types_at_def)

section \<open>The version ledger: \<^verbatim>\<open>SetVersions\<close>\<close>

lemma SetVersions_loop_other:
  "f \<notin> ValidManifest_Filename types ` snd ` set ms \<Longrightarrow> SetVersions_loop types ms meta f = meta f"
  by (induction ms arbitrary: meta) auto

lemma SetVersions_loop_dom:
  "dom (SetVersions_loop types ms meta) = dom meta \<union> ValidManifest_Filename types ` snd ` set ms"
proof (induction ms arbitrary: meta)
  case Nil
  then show ?case by simp
next
  case (Cons a ms)
  obtain k m where a: "a = (k, m)" by (cases a)
  show ?case unfolding a by (simp only: SetVersions_loop.simps Cons.IH dom_fun_upd) auto
qed

lemma SetVersions_loop_distinct:
  "distinct (map (\<lambda>(k, m). ValidManifest_Filename types m) ms) \<Longrightarrow> (k, m) \<in> set ms \<Longrightarrow>
   SetVersions_loop types ms meta (ValidManifest_Filename types m) = Some \<lparr>FileVersion.Version = SignedBase.Version (Base m)\<rparr>"
proof (induction ms arbitrary: meta)
  case Nil
  then show ?case by simp
next
  case (Cons a ms)
  obtain k' m' where a: "a = (k', m')" by (cases a)
  show ?case
  proof (cases "(k, m) \<in> set ms")
    case True
    with Cons a show ?thesis by simp
  next
    case False
    with Cons.prems a have e: "k' = k" "m' = m" by auto
    from Cons.prems a e have "ValidManifest_Filename types m \<notin> ValidManifest_Filename types ` snd ` set ms"
      by (auto simp: image_iff)
    then show ?thesis using a e by (simp add: SetVersions_loop_other)
  qed
qed

lemma SetVersions_loop_last:
  "SetVersions_loop types ms meta f = Some v \<Longrightarrow> f \<in> ValidManifest_Filename types ` snd ` set ms \<Longrightarrow>
   \<exists>m \<in> snd ` set ms. ValidManifest_Filename types m = f \<and> v = \<lparr>FileVersion.Version = SignedBase.Version (Base m)\<rparr>"
proof (induction ms arbitrary: meta)
  case Nil
  then show ?case by simp
next
  case (Cons a ms)
  obtain k' m' where a: "a = (k', m')" by (cases a)
  show ?case
  proof (cases "f \<in> ValidManifest_Filename types ` snd ` set ms")
    case True
    with Cons a show ?thesis by auto
  next
    case False
    with Cons.prems a have e: "ValidManifest_Filename types m' = f" by auto
    from False Cons.prems(1) a e have "v = \<lparr>FileVersion.Version = SignedBase.Version (Base m')\<rparr>"
      by (simp add: SetVersions_loop_other)
    then show ?thesis using a e by auto
  qed
qed

lemma SetVersions_Meta:
  "Snapshot.Meta (SetVersions types manifest ms)
     = Some (SetVersions_loop types ms (entries (Snapshot.Meta manifest)))"
  by (simp add: SetVersions_def entries_def)

text \<open>
  C1, as amended. \<^verbatim>\<open>SetVersions\<close> merges into the ledger, it does not replace it: the
  keys after the call are the keys before it together with the filenames of the listed
  manifests; every entry under another key survives unchanged; every listed filename
  records the version of a listed manifest with that filename, and, when the filenames
  in the list are pairwise different, every listed manifest finds its own version under
  its own filename. On a snapshot fresh from \<^verbatim>\<open>NewSnapshot\<close> the ledger holds the
  listed filenames and nothing else.
\<close>

theorem SetVersions_merges:
  "dom (entries (Snapshot.Meta (SetVersions types manifest manifestList)))
     = dom (entries (Snapshot.Meta manifest)) \<union> ValidManifest_Filename types ` snd ` set manifestList
   \<and> (\<forall>f. f \<notin> ValidManifest_Filename types ` snd ` set manifestList \<longrightarrow>
         entries (Snapshot.Meta (SetVersions types manifest manifestList)) f
           = entries (Snapshot.Meta manifest) f)
   \<and> (\<forall>f \<in> ValidManifest_Filename types ` snd ` set manifestList.
         \<exists>m \<in> snd ` set manifestList. ValidManifest_Filename types m = f \<and>
           entries (Snapshot.Meta (SetVersions types manifest manifestList)) f
             = Some \<lparr>FileVersion.Version = Version (Base m)\<rparr>)
   \<and> (distinct (map (\<lambda>(k, m). ValidManifest_Filename types m) manifestList) \<longrightarrow>
        (\<forall>(k, m) \<in> set manifestList.
           entries (Snapshot.Meta (SetVersions types manifest manifestList))
               (ValidManifest_Filename types m)
             = Some \<lparr>FileVersion.Version = Version (Base m)\<rparr>))
   \<and> dom (entries (Snapshot.Meta
         (SetVersions types (NewSnapshot types rfc3339 initTime) manifestList)))
       = ValidManifest_Filename types ` snd ` set manifestList"
proof (intro conjI allI impI ballI)
  show "dom (entries (Snapshot.Meta (SetVersions types manifest manifestList)))
     = dom (entries (Snapshot.Meta manifest)) \<union> ValidManifest_Filename types ` snd ` set manifestList"
    by (simp add: SetVersions_Meta SetVersions_loop_dom)
  show "entries (Snapshot.Meta (SetVersions types manifest manifestList)) f
          = entries (Snapshot.Meta manifest) f"
    if "f \<notin> ValidManifest_Filename types ` snd ` set manifestList" for f
    using that by (simp add: SetVersions_Meta SetVersions_loop_other)
  show "\<exists>m \<in> snd ` set manifestList. ValidManifest_Filename types m = f \<and>
           entries (Snapshot.Meta (SetVersions types manifest manifestList)) f
             = Some \<lparr>FileVersion.Version = Version (Base m)\<rparr>"
    if f: "f \<in> ValidManifest_Filename types ` snd ` set manifestList" for f
  proof -
    from f have "f \<in> dom (SetVersions_loop types manifestList (entries (Snapshot.Meta manifest)))"
      by (simp add: SetVersions_loop_dom)
    then obtain v where
      v: "SetVersions_loop types manifestList (entries (Snapshot.Meta manifest)) f = Some v"
      by auto
    from SetVersions_loop_last [OF v f] v show ?thesis
      by (auto simp: SetVersions_Meta)
  qed
  show "case x of (k, m) \<Rightarrow>
          entries (Snapshot.Meta (SetVersions types manifest manifestList))
              (ValidManifest_Filename types m)
            = Some \<lparr>FileVersion.Version = Version (Base m)\<rparr>"
    if "distinct (map (\<lambda>(k, m). ValidManifest_Filename types m) manifestList)"
      "x \<in> set manifestList" for x
    using that by (cases x) (simp add: SetVersions_Meta SetVersions_loop_distinct)
  show "dom (entries (Snapshot.Meta
           (SetVersions types (NewSnapshot types rfc3339 initTime) manifestList)))
          = ValidManifest_Filename types ` snd ` set manifestList"
    by (simp add: SetVersions_Meta SetVersions_loop_dom NewSnapshot_def)
qed

theorem SetVersions_merges_witness:
  "dom (entries (Snapshot.Meta (SetVersions scenario_types stale_snapshot root_and_index)))
     = {''root.json'', ''index.json'', ''old.json''}
   \<and> entries (Snapshot.Meta (SetVersions scenario_types stale_snapshot root_and_index)) ''old.json''
       = Some \<lparr>FileVersion.Version = 7\<rparr>
   \<and> (\<exists>m \<in> snd ` set root_and_index.
         ValidManifest_Filename scenario_types m = ''root.json'' \<and>
         entries (Snapshot.Meta (SetVersions scenario_types stale_snapshot root_and_index))
             ''root.json''
           = Some \<lparr>FileVersion.Version = Version (Base m)\<rparr>)
   \<and> entries (Snapshot.Meta (SetVersions scenario_types stale_snapshot root_and_index)) ''index.json''
       = Some \<lparr>FileVersion.Version = 1\<rparr>"
proof -
  note T = SetVersions_merges [of scenario_types stale_snapshot root_and_index]
  have fr: "ValidManifest_Filename scenario_types
              (RootManifest (NewRoot scenario_types example_rfc3339 0)) = ''root.json''"
    by (simp add: scenario_defs)
  have fi: "ValidManifest_Filename scenario_types
              (IndexManifest (NewIndex scenario_types example_rfc3339 0)) = ''index.json''"
    by (simp add: scenario_defs)
  have fs: "ValidManifest_Filename scenario_types ` snd ` set root_and_index
              = {''root.json'', ''index.json''}"
    by (simp add: root_and_index_def fr fi)
  have d: "distinct (map (\<lambda>(k, m). ValidManifest_Filename scenario_types m) root_and_index)"
    by (simp add: root_and_index_def fr fi)
  have old: "entries (Snapshot.Meta stale_snapshot) = [''old.json'' \<mapsto> \<lparr>FileVersion.Version = 7\<rparr>]"
    by (simp add: stale_snapshot_def)
  have n: "''old.json'' \<notin> ValidManifest_Filename scenario_types ` snd ` set root_and_index"
    by (simp add: fs)
  have r: "''root.json'' \<in> ValidManifest_Filename scenario_types ` snd ` set root_and_index"
    by (simp add: fs)
  have i: "(ManifestTypeIndex, IndexManifest (NewIndex scenario_types example_rfc3339 0))
             \<in> set root_and_index"
    by (simp add: root_and_index_def)
  have 1: "dom (entries (Snapshot.Meta (SetVersions scenario_types stale_snapshot root_and_index)))
             = {''root.json'', ''index.json'', ''old.json''}"
    using T [THEN conjunct1] by (simp add: old fs)
  have 2: "entries (Snapshot.Meta (SetVersions scenario_types stale_snapshot root_and_index))
             ''old.json'' = Some \<lparr>FileVersion.Version = 7\<rparr>"
    using T [THEN conjunct2, THEN conjunct1, rule_format, OF n] by (simp add: old)
  note 3 = T [THEN conjunct2, THEN conjunct2, THEN conjunct1, rule_format, OF r]
  have 4: "entries (Snapshot.Meta (SetVersions scenario_types stale_snapshot root_and_index))
             ''index.json'' = Some \<lparr>FileVersion.Version = 1\<rparr>"
    using T [THEN conjunct2, THEN conjunct2, THEN conjunct2, THEN conjunct1, rule_format, OF d i]
    by (simp add: fi)
  from 1 2 3 4 show ?thesis by (intro conjI)
qed

text \<open>
  C1, as stated, fails. The snapshot \<open>stale_snapshot\<close> holds an entry under
  \<open>old.json\<close>, which is the filename of no listed manifest, and the entry is still there
  after \<^verbatim>\<open>SetVersions\<close>. The list \<open>two_roots\<close> holds a root manifest of version 1
  whose filename is \<open>root.json\<close>, and after the call the entry under \<open>root.json\<close>
  records version 2, the version of the other root manifest of the list.
\<close>

theorem SetVersions_replaces_counterexample:
  "entries (Snapshot.Meta (SetVersions scenario_types stale_snapshot two_roots)) ''old.json''
     = Some \<lparr>FileVersion.Version = 7\<rparr>
   \<and> ''old.json'' \<notin> ValidManifest_Filename scenario_types ` snd ` set two_roots
   \<and> (''a'', RootManifest (NewRoot scenario_types example_rfc3339 0)) \<in> set two_roots
   \<and> ValidManifest_Filename scenario_types (RootManifest (NewRoot scenario_types example_rfc3339 0))
        = ''root.json''
   \<and> Version (Base (RootManifest (NewRoot scenario_types example_rfc3339 0))) = 1
   \<and> entries (Snapshot.Meta (SetVersions scenario_types stale_snapshot two_roots)) ''root.json''
        = Some \<lparr>FileVersion.Version = 2\<rparr>"
  by (simp add: SetVersions_def stale_snapshot_def two_roots_def NewRoot_def scenario_defs
      SignedBase.truncate_def)

section \<open>Bootstrap: \<^verbatim>\<open>Init\<close>\<close>

lemma SetRole_eq:
  "SetRole types r m =
     r\<lparr>Roles := Some ((entries (Roles r))(Ty (Base m) \<mapsto> role_for types (Ty (Base m))))\<rparr>"
  by (simp add: SetRole_def role_for_def ValidManifest_Filename_def Filename_def entries_def)

lemma Init_loop_result:
  assumes "fst ` set ms = bootstrap_kinds"
    and "map_of ms ManifestTypeRoot = Some (RootManifest r)"
    and "\<And>k m. map_of ms k = Some m \<Longrightarrow> Ty (Base m) = k"
    and "Roles r = Some roles"
  shows "(\<forall>k v. List.find missing rest = Some (k, v) \<longrightarrow>
            Init_loop types rest ms = Inl (not_initialized k))
       \<and> (List.find missing rest = None \<longrightarrow>
            (\<exists>roles'. Init_loop types rest ms
                 = Inr (AList.update ManifestTypeRoot (RootManifest (r\<lparr>Roles := Some roles'\<rparr>)) ms)
               \<and> (\<forall>k. roles' k =
                     (if k \<in> fst ` {e \<in> set rest. filename (snd e) \<noteq> []}
                      then Some (role_for types k) else roles k))))"
  using assms
proof (induction rest arbitrary: ms r roles)
  case Nil
  have "AList.update ManifestTypeRoot (RootManifest (r\<lparr>Roles := Some roles\<rparr>)) ms = ms"
    using Nil.prems by (simp add: AList.update_triv)
  then have "Init_loop types [] ms
                 = Inr (AList.update ManifestTypeRoot (RootManifest (r\<lparr>Roles := Some roles\<rparr>)) ms)
             \<and> (\<forall>k. roles k = roles k)"
    by simp
  then show ?case by (simp del: Init_loop.simps) blast
next
  case (Cons a rest)
  obtain ty val where a: "a = (ty, val)" by (cases a)
  show ?case
  proof (cases "filename val = []")
    case True
    have s: "{e \<in> set (a # rest). filename (snd e) \<noteq> []} = {e \<in> set rest. filename (snd e) \<noteq> []}"
      using True a by auto
    have f: "List.find missing (a # rest) = List.find missing rest"
      using True a by (simp add: missing_def)
    have l: "Init_loop types (a # rest) ms = Init_loop types rest ms"
      using True a by simp
    show ?thesis unfolding s f l
      by (rule Cons.IH [OF Cons.prems])
  next
    case False
    note ne = False
    show ?thesis
    proof (cases "ty \<in> bootstrap_kinds")
      case False
      then have "map_of ms ty = None"
        using Cons.prems(1) by (simp add: map_of_eq_None_iff)
      then have l: "Init_loop types (a # rest) ms = Inl (not_initialized ty)"
        using ne a by simp
      have f: "List.find missing (a # rest) = Some (ty, val)"
        using ne False a by (simp add: missing_def)
      show ?thesis unfolding l f by simp
    next
      case True
      then have "ty \<in> fst ` set ms" using Cons.prems(1) by simp
      then obtain m where m: "map_of ms ty = Some m"
        by (metis map_of_eq_None_iff not_Some_eq)
      then have tym: "Ty (Base m) = ty" by (rule Cons.prems(3))
      define r1 where "r1 = SetRole types r m"
      define ms1 where "ms1 = AList.update ManifestTypeRoot (RootManifest r1) ms"
      have r1: "r1 = r\<lparr>Roles := Some (roles(ty \<mapsto> role_for types ty))\<rparr>"
        unfolding r1_def by (simp add: SetRole_eq tym Cons.prems(4))
      have l: "Init_loop types (a # rest) ms = Init_loop types rest ms1"
        using ne a m Cons.prems(2) by (simp add: ms1_def r1_def)
      have f: "List.find missing (a # rest) = List.find missing rest"
        using True a by (simp add: missing_def)
      have p1: "fst ` set ms1 = bootstrap_kinds"
        unfolding ms1_def using Cons.prems(1) by (auto simp: AList.dom_update bootstrap_kinds_def)
      have p2: "map_of ms1 ManifestTypeRoot = Some (RootManifest r1)"
        by (simp add: ms1_def AList.update_conv')
      have tyr: "Ty r = ManifestTypeRoot"
        using Cons.prems(3) [OF Cons.prems(2)] by (simp add: SignedBase.truncate_def)
      have p3: "\<And>k m. map_of ms1 k = Some m \<Longrightarrow> Ty (Base m) = k"
        using Cons.prems(3) tyr by (auto simp: ms1_def AList.update_conv' r1 SignedBase.truncate_def split: if_splits)
      have p4: "Roles r1 = Some (roles(ty \<mapsto> role_for types ty))"
        by (simp add: r1)
      note IH = Cons.IH [OF p1 p2 p3 p4]
      have u: "\<And>x. AList.update ManifestTypeRoot (RootManifest (r1\<lparr>Roles := Some x\<rparr>)) ms1
                 = AList.update ManifestTypeRoot (RootManifest (r\<lparr>Roles := Some x\<rparr>)) ms"
        by (simp add: ms1_def r1)
      have s: "{e \<in> set (a # rest). filename (snd e) \<noteq> []}
                 = insert (ty, val) {e \<in> set rest. filename (snd e) \<noteq> []}"
        using ne a by auto
      show ?thesis unfolding l f
      proof (intro conjI impI allI)
        fix k v
        assume "List.find missing rest = Some (k, v)"
        then show "Init_loop types rest ms1 = Inl (not_initialized k)"
          using IH by blast
      next
        assume "List.find missing rest = None"
        with IH obtain roles' where
          A: "Init_loop types rest ms1
                = Inr (AList.update ManifestTypeRoot (RootManifest (r1\<lparr>Roles := Some roles'\<rparr>)) ms1)"
          and B: "\<forall>k. roles' k =
                     (if k \<in> fst ` {e \<in> set rest. filename (snd e) \<noteq> []}
                      then Some (role_for types k) else (roles(ty \<mapsto> role_for types ty)) k)"
          by blast
        have "\<forall>k. roles' k =
                (if k \<in> fst ` {e \<in> set (a # rest). filename (snd e) \<noteq> []}
                 then Some (role_for types k) else roles k)"
          unfolding s using B by auto
        with A show "\<exists>roles'. Init_loop types rest ms1
                 = Inr (AList.update ManifestTypeRoot (RootManifest (r\<lparr>Roles := Some roles'\<rparr>)) ms)
               \<and> (\<forall>k. roles' k =
                     (if k \<in> fst ` {e \<in> set (a # rest). filename (snd e) \<noteq> []}
                      then Some (role_for types k) else roles k))"
          unfolding u by blast
      qed
    qed
  qed
qed

lemma InitManifests_unfold:
  "InitManifests types rfc3339 marshal initTime =
     (case marshal (bootstrap_snapshot types rfc3339 initTime) of
        Inl err \<Rightarrow> Inl err
      | Inr bytes \<Rightarrow>
          Init_loop types types (bootstrap_manifests types rfc3339 initTime (length bytes)))"
  using ManifestType_distinct
  by (simp add: InitManifests_def bootstrap_manifests_def bootstrap_timestamp_def
      bootstrap_snapshot_def SetSnapshot_def NewTimestamp_def Let_def split: sum.splits)

lemma InitManifests_cases:
  "(\<forall>err. marshal (bootstrap_snapshot types rfc3339 initTime) = Inl err \<longrightarrow>
        InitManifests types rfc3339 marshal initTime = Inl err)
   \<and> (\<forall>bytes k v. marshal (bootstrap_snapshot types rfc3339 initTime) = Inr bytes \<longrightarrow>
        List.find missing types = Some (k, v) \<longrightarrow>
        InitManifests types rfc3339 marshal initTime = Inl (not_initialized k))
   \<and> (\<forall>bytes. marshal (bootstrap_snapshot types rfc3339 initTime) = Inr bytes \<longrightarrow>
        List.find missing types = None \<longrightarrow>
        (\<exists>roles'. InitManifests types rfc3339 marshal initTime
             = Inr (AList.update ManifestTypeRoot
                     (RootManifest ((NewRoot types rfc3339 initTime)\<lparr>Roles := Some roles'\<rparr>))
                     (bootstrap_manifests types rfc3339 initTime (length bytes)))
          \<and> (\<forall>k. roles' k =
                (if k \<in> fst ` {e \<in> set types. filename (snd e) \<noteq> []}
                 then Some (role_for types k) else None))))"
proof -
  have 1: "fst ` set (bootstrap_manifests types rfc3339 initTime n) = bootstrap_kinds" for n
    by (auto simp: bootstrap_manifests_def bootstrap_kinds_def)
  have 2: "map_of (bootstrap_manifests types rfc3339 initTime n) ManifestTypeRoot
             = Some (RootManifest (NewRoot types rfc3339 initTime))" for n
    by (simp add: bootstrap_manifests_def)
  have 3: "Ty (Base m) = k" if "map_of (bootstrap_manifests types rfc3339 initTime n) k = Some m" for n k m
    using that
    by (auto simp: bootstrap_manifests_def bootstrap_timestamp_def bootstrap_snapshot_def
        SetVersions_def split: if_splits)
  have 4: "Roles (NewRoot types rfc3339 initTime) = Some Map.empty"
    by (simp add: NewRoot_def)
  note L = Init_loop_result [OF 1 2 3 4, where rest = types and types = types]
  show ?thesis
    using L by (simp add: InitManifests_unfold)
qed

lemma bootstrap_snapshot_fields [simp]:
  "Ty (bootstrap_snapshot types rfc3339 initTime) = ManifestTypeSnapshot"
  "Version (bootstrap_snapshot types rfc3339 initTime) = 0"
  "Snapshot.Meta (bootstrap_snapshot types rfc3339 initTime) =
     Some [filename (types_at types ManifestTypeRoot) \<mapsto> \<lparr>FileVersion.Version = 1\<rparr>,
           filename (types_at types ManifestTypeIndex) \<mapsto> \<lparr>FileVersion.Version = 1\<rparr>]"
  by (simp_all add: bootstrap_snapshot_def SetVersions_def NewSnapshot_def
      ValidManifest_Filename_def Filename_def)

lemma InitManifests_InrE:
  assumes "InitManifests types rfc3339 marshal initTime = Inr manifests"
  obtains bytes roles' where
    "marshal (bootstrap_snapshot types rfc3339 initTime) = Inr bytes"
    "List.find missing types = None"
    "map_of manifests ManifestTypeRoot
       = Some (RootManifest ((NewRoot types rfc3339 initTime)\<lparr>Roles := Some roles'\<rparr>))"
    "map_of manifests ManifestTypeIndex
       = Some (IndexManifest (NewIndex types rfc3339 initTime))"
    "map_of manifests ManifestTypeSnapshot
       = Some (SnapshotManifest (bootstrap_snapshot types rfc3339 initTime))"
    "map_of manifests ManifestTypeTimestamp
       = Some (TimestampManifest (bootstrap_timestamp types rfc3339 initTime (length bytes)))"
    "\<And>k. roles' k =
       (if k \<in> fst ` {e \<in> set types. filename (snd e) \<noteq> []}
        then Some (role_for types k) else None)"
    "fst ` set manifests = bootstrap_kinds"
proof -
  note C = InitManifests_cases [of marshal types rfc3339 initTime]
  obtain bytes where b: "marshal (bootstrap_snapshot types rfc3339 initTime) = Inr bytes"
  proof (cases "marshal (bootstrap_snapshot types rfc3339 initTime)")
    case (Inl err)
    with C assms show ?thesis by simp
  next
    case (Inr bytes)
    then show ?thesis by (rule that)
  qed
  have f: "List.find missing types = None"
  proof (cases "List.find missing types")
    case None
    then show ?thesis .
  next
    case (Some e)
    obtain k v where "e = (k, v)" by (cases e)
    with Some b C assms show ?thesis by simp
  qed
  from C [THEN conjunct2, THEN conjunct2, rule_format, OF b f] obtain roles' where
    m: "InitManifests types rfc3339 marshal initTime
          = Inr (AList.update ManifestTypeRoot
                  (RootManifest ((NewRoot types rfc3339 initTime)\<lparr>Roles := Some roles'\<rparr>))
                  (bootstrap_manifests types rfc3339 initTime (length bytes)))"
    and r: "\<forall>k. roles' k =
                (if k \<in> fst ` {e \<in> set types. filename (snd e) \<noteq> []}
                 then Some (role_for types k) else None)"
    by (elim exE conjE)
  from m assms have ms: "manifests = AList.update ManifestTypeRoot
                  (RootManifest ((NewRoot types rfc3339 initTime)\<lparr>Roles := Some roles'\<rparr>))
                  (bootstrap_manifests types rfc3339 initTime (length bytes))"
    by simp
  have m1: "map_of manifests ManifestTypeRoot
             = Some (RootManifest ((NewRoot types rfc3339 initTime)\<lparr>Roles := Some roles'\<rparr>))"
    by (simp add: ms AList.update_conv')
  have m2: "map_of manifests ManifestTypeIndex
             = Some (IndexManifest (NewIndex types rfc3339 initTime))"
    using ManifestType_distinct by (simp add: ms AList.update_conv' bootstrap_manifests_def)
  have m3: "map_of manifests ManifestTypeSnapshot
             = Some (SnapshotManifest (bootstrap_snapshot types rfc3339 initTime))"
    using ManifestType_distinct by (simp add: ms AList.update_conv' bootstrap_manifests_def)
  have m4: "map_of manifests ManifestTypeTimestamp
             = Some (TimestampManifest (bootstrap_timestamp types rfc3339 initTime (length bytes)))"
    using ManifestType_distinct by (simp add: ms AList.update_conv' bootstrap_manifests_def)
  have ks: "fst ` set manifests = bootstrap_kinds"
    by (auto simp: ms AList.dom_update bootstrap_manifests_def bootstrap_kinds_def)
  show ?thesis
    by (rule that [OF b f m1 m2 m3 m4 _ ks]) (simp add: r)
qed

lemma InitManifests_succeeds:
  assumes "marshal (bootstrap_snapshot types rfc3339 initTime) = Inr bytes"
    and "\<forall>e \<in> set types. filename (snd e) \<noteq> [] \<longrightarrow> fst e \<in> bootstrap_kinds"
  shows "\<exists>manifests. InitManifests types rfc3339 marshal initTime = Inr manifests"
proof -
  from assms(2) have "List.find missing types = None"
    by (auto simp: find_None_iff missing_def)
  with assms(1) InitManifests_cases [of marshal types rfc3339 initTime] show ?thesis
    by blast
qed

text \<open>
  The Go runtime may visit the root and the index in either order when
  \<^verbatim>\<open>SetVersions\<close> iterates the manifest set inside \<^verbatim>\<open>Init\<close>; the snapshot is the
  same.
\<close>

lemma bootstrap_snapshot_order:
  "SetVersions types (NewSnapshot types rfc3339 initTime)
     [(ManifestTypeIndex, IndexManifest (NewIndex types rfc3339 initTime)),
      (ManifestTypeRoot, RootManifest (NewRoot types rfc3339 initTime))]
   = bootstrap_snapshot types rfc3339 initTime"
  by (auto simp: bootstrap_snapshot_def SetVersions_def NewSnapshot_def
      ValidManifest_Filename_def Filename_def fun_upd_twist)

lemma scenario_find_missing: "List.find missing scenario_types = None"
  by (simp add: scenario_types_def missing_def bootstrap_kinds_def ManifestType_defs)

lemma scenario_InitManifests:
  "\<exists>manifests. InitManifests scenario_types example_rfc3339 example_marshal 0 = Inr manifests"
proof -
  obtain bytes where "example_marshal (bootstrap_snapshot scenario_types example_rfc3339 0) = Inr bytes"
    by (simp add: example_marshal_def)
  with InitManifests_cases [of example_marshal scenario_types example_rfc3339 0]
    scenario_find_missing
  show ?thesis by blast
qed

text \<open>
  C5. For every registry, time format and \<open>initTime\<close>, the constructors give the root, the
  index and the timestamp version 1 and the snapshot version 0; and whenever the bootstrap
  succeeds, the four manifests it hands over for saving carry these versions.
\<close>

theorem bootstrap_versions:
  "Version (NewRoot types rfc3339 initTime) = 1
   \<and> Version (NewIndex types rfc3339 initTime) = 1
   \<and> Version (NewTimestamp types rfc3339 initTime) = 1
   \<and> Version (NewSnapshot types rfc3339 initTime) = 0
   \<and> (\<forall>manifests. InitManifests types rfc3339 marshal initTime = Inr manifests \<longrightarrow>
         (\<exists>root index snapshot timestamp.
            map_of manifests ManifestTypeRoot = Some (RootManifest root)
          \<and> map_of manifests ManifestTypeIndex = Some (IndexManifest index)
          \<and> map_of manifests ManifestTypeSnapshot = Some (SnapshotManifest snapshot)
          \<and> map_of manifests ManifestTypeTimestamp = Some (TimestampManifest timestamp)
          \<and> Version root = 1 \<and> Version index = 1 \<and> Version timestamp = 1
          \<and> Version snapshot = 0))"
proof (intro conjI allI impI)
  fix manifests
  assume "InitManifests types rfc3339 marshal initTime = Inr manifests"
  then show "\<exists>root index snapshot timestamp.
            map_of manifests ManifestTypeRoot = Some (RootManifest root)
          \<and> map_of manifests ManifestTypeIndex = Some (IndexManifest index)
          \<and> map_of manifests ManifestTypeSnapshot = Some (SnapshotManifest snapshot)
          \<and> map_of manifests ManifestTypeTimestamp = Some (TimestampManifest timestamp)
          \<and> Version root = 1 \<and> Version index = 1 \<and> Version timestamp = 1
          \<and> Version snapshot = 0"
  proof (rule InitManifests_InrE)
    fix bytes roles'
    assume "map_of manifests ManifestTypeRoot
       = Some (RootManifest ((NewRoot types rfc3339 initTime)\<lparr>Roles := Some roles'\<rparr>))"
    "map_of manifests ManifestTypeIndex = Some (IndexManifest (NewIndex types rfc3339 initTime))"
    "map_of manifests ManifestTypeSnapshot
       = Some (SnapshotManifest (bootstrap_snapshot types rfc3339 initTime))"
    "map_of manifests ManifestTypeTimestamp
       = Some (TimestampManifest (bootstrap_timestamp types rfc3339 initTime (length bytes)))"
    then show ?thesis by (simp add: bootstrap_timestamp_def)
  qed
qed simp_all

theorem bootstrap_versions_witness:
  "\<exists>manifests root index snapshot timestamp.
     InitManifests scenario_types example_rfc3339 example_marshal 0 = Inr manifests
   \<and> map_of manifests ManifestTypeRoot = Some (RootManifest root)
   \<and> map_of manifests ManifestTypeIndex = Some (IndexManifest index)
   \<and> map_of manifests ManifestTypeSnapshot = Some (SnapshotManifest snapshot)
   \<and> map_of manifests ManifestTypeTimestamp = Some (TimestampManifest timestamp)
   \<and> Version root = 1 \<and> Version index = 1 \<and> Version timestamp = 1 \<and> Version snapshot = 0"
proof -
  from scenario_InitManifests obtain manifests where
    m: "InitManifests scenario_types example_rfc3339 example_marshal 0 = Inr manifests" ..
  note T = bootstrap_versions [of scenario_types example_rfc3339 0 example_marshal]
  from T have "\<forall>manifests. InitManifests scenario_types example_rfc3339 example_marshal 0 = Inr manifests \<longrightarrow>
         (\<exists>root index snapshot timestamp.
            map_of manifests ManifestTypeRoot = Some (RootManifest root)
          \<and> map_of manifests ManifestTypeIndex = Some (IndexManifest index)
          \<and> map_of manifests ManifestTypeSnapshot = Some (SnapshotManifest snapshot)
          \<and> map_of manifests ManifestTypeTimestamp = Some (TimestampManifest timestamp)
          \<and> Version root = 1 \<and> Version index = 1 \<and> Version timestamp = 1
          \<and> Version snapshot = 0)"
    by (elim conjE)
  from this [rule_format, OF m] m show ?thesis by blast
qed

text \<open>
  C2, as amended. After a successful bootstrap the ledger of the snapshot holds the
  entries of the root and of the index, the two manifests in the set when
  \<^verbatim>\<open>SetVersions\<close> ran, and nothing else: its keys are the filenames of these two, and
  each entry records the version of its manifest, which is 1.
\<close>

theorem Init_ledger:
  assumes "InitManifests types rfc3339 marshal initTime = Inr manifests"
  shows "\<exists>root index snapshot.
           map_of manifests ManifestTypeRoot = Some (RootManifest root)
         \<and> map_of manifests ManifestTypeIndex = Some (IndexManifest index)
         \<and> map_of manifests ManifestTypeSnapshot = Some (SnapshotManifest snapshot)
         \<and> Ty root = ManifestTypeRoot \<and> Ty index = ManifestTypeIndex
         \<and> dom (entries (Snapshot.Meta snapshot)) = {Filename types root, Filename types index}
         \<and> entries (Snapshot.Meta snapshot) (Filename types root)
             = Some \<lparr>FileVersion.Version = Version root\<rparr>
         \<and> entries (Snapshot.Meta snapshot) (Filename types index)
             = Some \<lparr>FileVersion.Version = Version index\<rparr>
         \<and> Version root = 1 \<and> Version index = 1"
  using assms
proof (rule InitManifests_InrE)
  fix bytes roles'
  assume "map_of manifests ManifestTypeRoot
       = Some (RootManifest ((NewRoot types rfc3339 initTime)\<lparr>Roles := Some roles'\<rparr>))"
    "map_of manifests ManifestTypeIndex = Some (IndexManifest (NewIndex types rfc3339 initTime))"
    "map_of manifests ManifestTypeSnapshot
       = Some (SnapshotManifest (bootstrap_snapshot types rfc3339 initTime))"
  then show ?thesis by (auto simp: Filename_def)
qed

theorem Init_ledger_witness:
  "\<exists>manifests snapshot.
     InitManifests scenario_types example_rfc3339 example_marshal 0 = Inr manifests
   \<and> map_of manifests ManifestTypeSnapshot = Some (SnapshotManifest snapshot)
   \<and> dom (entries (Snapshot.Meta snapshot)) = {''root.json'', ''index.json''}
   \<and> entries (Snapshot.Meta snapshot) ''root.json'' = Some \<lparr>FileVersion.Version = 1\<rparr>
   \<and> entries (Snapshot.Meta snapshot) ''index.json'' = Some \<lparr>FileVersion.Version = 1\<rparr>"
proof -
  from scenario_InitManifests obtain manifests where
    m: "InitManifests scenario_types example_rfc3339 example_marshal 0 = Inr manifests" ..
  from Init_ledger [OF m] obtain root index snapshot where
    r: "map_of manifests ManifestTypeRoot = Some (RootManifest root)"
    and i: "map_of manifests ManifestTypeIndex = Some (IndexManifest index)"
    and s: "map_of manifests ManifestTypeSnapshot = Some (SnapshotManifest snapshot)"
    and tr: "Ty root = ManifestTypeRoot" and ti: "Ty index = ManifestTypeIndex"
    and d: "dom (entries (Snapshot.Meta snapshot)) = {Filename scenario_types root, Filename scenario_types index}"
    and er: "entries (Snapshot.Meta snapshot) (Filename scenario_types root)
             = Some \<lparr>FileVersion.Version = Version root\<rparr>"
    and ei: "entries (Snapshot.Meta snapshot) (Filename scenario_types index)
             = Some \<lparr>FileVersion.Version = Version index\<rparr>"
    and vr: "Version root = 1" and vi: "Version index = 1"
    by (elim exE conjE)
  have fr: "Filename scenario_types root = ''root.json''"
    using tr by (simp add: scenario_defs)
  have fi: "Filename scenario_types index = ''index.json''"
    using ti by (simp add: scenario_defs)
  from m s d er ei show ?thesis
    unfolding fr fi vr vi by blast
qed

text \<open>
  C2, as stated, fails: in the bootstrap of the scenario registry the snapshot handed over
  for saving is \<open>bootstrap_snapshot\<close>, its filename is \<open>snapshot.json\<close>, and its ledger
  has no entry under that filename. The snapshot enters the manifest set only after
  \<^verbatim>\<open>SetVersions\<close> has returned.
\<close>

theorem Init_ledger_self_entry_counterexample:
  "\<not> isl (InitManifests scenario_types example_rfc3339 example_marshal 0)
   \<and> map_of (projr (InitManifests scenario_types example_rfc3339 example_marshal 0))
         ManifestTypeSnapshot
       = Some (SnapshotManifest (bootstrap_snapshot scenario_types example_rfc3339 0))
   \<and> Filename scenario_types (bootstrap_snapshot scenario_types example_rfc3339 0)
       = ''snapshot.json''
   \<and> entries (Snapshot.Meta (bootstrap_snapshot scenario_types example_rfc3339 0))
         ''snapshot.json'' = None"
proof -
  from scenario_InitManifests obtain manifests where
    m: "InitManifests scenario_types example_rfc3339 example_marshal 0 = Inr manifests" ..
  from m have s: "map_of manifests ManifestTypeSnapshot
       = Some (SnapshotManifest (bootstrap_snapshot scenario_types example_rfc3339 0))"
  proof (rule InitManifests_InrE)
    fix bytes roles'
    assume "map_of manifests ManifestTypeSnapshot
       = Some (SnapshotManifest (bootstrap_snapshot scenario_types example_rfc3339 0))"
    then show ?thesis .
  qed
  have f: "Filename scenario_types (bootstrap_snapshot scenario_types example_rfc3339 0)
       = ''snapshot.json''"
    by (simp add: scenario_defs)
  have e: "entries (Snapshot.Meta (bootstrap_snapshot scenario_types example_rfc3339 0))
         ''snapshot.json'' = None"
    by (simp add: scenario_defs)
  from m s f e show ?thesis by simp
qed

text \<open>
  C3, as amended. Let the registry hold a kind \<open>k\<close> with a non-empty filename for which
  the bootstrap has produced no manifest. Then \<^verbatim>\<open>Init\<close> fails and the file system is
  as it was, whatever \<^verbatim>\<open>batchSaveManifests\<close> would do: it is not called. When the
  snapshot serializes, the error is \<^verbatim>\<open>manifest '...' not initialized porperly\<close> naming
  the first kind that the loop visits among the kinds of the registry with a non-empty
  filename and no manifest, which is \<open>k\<close> when \<open>k\<close> is the only such kind. When the
  serialization of the snapshot fails, the error is that of the serialization, returned
  before the loop starts.
\<close>

theorem Init_missing_kind:
  assumes "(k, val) \<in> set types" and "filename val \<noteq> []" and "k \<notin> bootstrap_kinds"
  shows "\<exists>k' val'.
           List.find missing types = Some (k', val')
         \<and> (k', val') \<in> set types \<and> filename val' \<noteq> [] \<and> k' \<notin> bootstrap_kinds
         \<and> ((\<forall>e \<in> set types. filename (snd e) \<noteq> [] \<and> fst e \<notin> bootstrap_kinds \<longrightarrow> fst e = k)
              \<longrightarrow> k' = k)
         \<and> (\<forall>bytes. marshal (bootstrap_snapshot types rfc3339 initTime) = Inr bytes \<longrightarrow>
               Init types rfc3339 marshal batchSaveManifests dst initTime fs
                 = (Some (not_initialized k'), fs))
         \<and> (\<forall>err. marshal (bootstrap_snapshot types rfc3339 initTime) = Inl err \<longrightarrow>
               Init types rfc3339 marshal batchSaveManifests dst initTime fs = (Some err, fs))
         \<and> fst (Init types rfc3339 marshal batchSaveManifests dst initTime fs) \<noteq> None
         \<and> snd (Init types rfc3339 marshal batchSaveManifests dst initTime fs) = fs"
proof -
  from assms have "missing (k, val)" by (simp add: missing_def)
  with assms(1) have "List.find missing types \<noteq> None"
    by (auto simp: find_None_iff)
  then obtain k' val' where f: "List.find missing types = Some (k', val')"
    by (cases "List.find missing types") auto
  then have in': "(k', val') \<in> set types" and mis: "missing (k', val')"
    by (auto simp: find_Some_iff)
  note C = InitManifests_cases [of marshal types rfc3339 initTime]
  have r: "Init types rfc3339 marshal batchSaveManifests dst initTime fs
             = (Some (not_initialized k'), fs)"
    if "marshal (bootstrap_snapshot types rfc3339 initTime) = Inr bytes" for bytes
  proof -
    from C [THEN conjunct2, THEN conjunct1, rule_format, OF that f]
    show ?thesis by (simp add: Init_def)
  qed
  have l: "Init types rfc3339 marshal batchSaveManifests dst initTime fs = (Some err, fs)"
    if "marshal (bootstrap_snapshot types rfc3339 initTime) = Inl err" for err
  proof -
    from C [THEN conjunct1, rule_format, OF that]
    show ?thesis by (simp add: Init_def)
  qed
  have fl: "fst (Init types rfc3339 marshal batchSaveManifests dst initTime fs) \<noteq> None
          \<and> snd (Init types rfc3339 marshal batchSaveManifests dst initTime fs) = fs"
  proof (cases "marshal (bootstrap_snapshot types rfc3339 initTime)")
    case (Inl err)
    then show ?thesis by (simp add: l)
  next
    case (Inr bytes)
    then show ?thesis by (simp add: r)
  qed
  have u: "k' = k"
    if "\<forall>e \<in> set types. filename (snd e) \<noteq> [] \<and> fst e \<notin> bootstrap_kinds \<longrightarrow> fst e = k"
    using that in' mis by (auto simp: missing_def)
  from f in' mis u r l fl show ?thesis
    by (simp add: missing_def)
qed

theorem Init_missing_kind_witness:
  "Init scenario_B_types example_rfc3339 example_marshal example_save ''repo'' 0 []
     = (Some (not_initialized ''mirror''), [])
   \<and> Init scenario_B_types example_rfc3339 failing_marshal example_save ''repo'' 0 []
     = (Some (Error ''json: unsupported value''), [])
   \<and> fst (example_save ''repo''
          (bootstrap_manifests scenario_B_types example_rfc3339 0 0) []) = None
   \<and> snd (example_save ''repo''
          (bootstrap_manifests scenario_B_types example_rfc3339 0 0) []) \<noteq> []"
proof -
  obtain bytes where
    b: "example_marshal (bootstrap_snapshot scenario_B_types example_rfc3339 0) = Inr bytes"
    by (simp add: example_marshal_def)
  have e: "failing_marshal (bootstrap_snapshot scenario_B_types example_rfc3339 0)
             = Inl (Error ''json: unsupported value'')"
    by (simp add: failing_marshal_def)
  have 1: "(''mirror'', \<lparr>filename = ''mirror.json'', expire = 86400, threshold = 1\<rparr>)
             \<in> set scenario_B_types"
    by (simp add: scenario_B_types_def)
  have 2: "filename \<lparr>filename = ''mirror.json'', expire = 86400, threshold = 1\<rparr> \<noteq> []"
    by simp
  have 3: "''mirror'' \<notin> bootstrap_kinds"
    by (simp add: bootstrap_kinds_def ManifestType_defs)
  have 4: "\<forall>e \<in> set scenario_B_types.
             filename (snd e) \<noteq> [] \<and> fst e \<notin> bootstrap_kinds \<longrightarrow> fst e = ''mirror''"
    by (simp add: scenario_B_types_def scenario_types_def bootstrap_kinds_def ManifestType_defs)
  from Init_missing_kind [OF 1 2 3, of example_marshal example_rfc3339 0
      example_save "''repo''" "[]"]
  obtain k' where
    "(\<forall>e \<in> set scenario_B_types.
        filename (snd e) \<noteq> [] \<and> fst e \<notin> bootstrap_kinds \<longrightarrow> fst e = ''mirror'') \<longrightarrow> k' = ''mirror''"
    and "\<forall>bytes. example_marshal (bootstrap_snapshot scenario_B_types example_rfc3339 0) = Inr bytes \<longrightarrow>
           Init scenario_B_types example_rfc3339 example_marshal example_save ''repo'' 0 []
             = (Some (not_initialized k'), [])"
    by (elim exE conjE)
  with 4 b have 5: "Init scenario_B_types example_rfc3339 example_marshal example_save ''repo'' 0 []
     = (Some (not_initialized ''mirror''), [])"
    by simp
  from Init_missing_kind [OF 1 2 3, of failing_marshal example_rfc3339 0
      example_save "''repo''" "[]"]
  obtain k'' where
    "\<forall>err. failing_marshal (bootstrap_snapshot scenario_B_types example_rfc3339 0) = Inl err \<longrightarrow>
           Init scenario_B_types example_rfc3339 failing_marshal example_save ''repo'' 0 []
             = (Some err, [])"
    by (elim exE conjE)
  with e have 6: "Init scenario_B_types example_rfc3339 failing_marshal example_save ''repo'' 0 []
     = (Some (Error ''json: unsupported value''), [])"
    by simp
  have 7: "fst (example_save ''repo''
          (bootstrap_manifests scenario_B_types example_rfc3339 0 0) []) = None
   \<and> snd (example_save ''repo''
          (bootstrap_manifests scenario_B_types example_rfc3339 0 0) []) \<noteq> []"
    by (simp add: example_save_def bootstrap_manifests_def)
  from 5 6 7 show ?thesis by (intro conjI) simp_all
qed

text \<open>
  C3, as stated, fails. The registry \<open>two_missing_types\<close> holds the kind \<open>zeta\<close> with
  the filename \<open>zeta.json\<close>, and the bootstrap produces no manifest for it; the
  snapshot serializes; and the error that \<^verbatim>\<open>Init\<close> returns names \<open>mirror\<close>, the kind
  without a manifest that the loop visits first, and is not the error naming \<open>zeta\<close>.
  And on the registry of scenario B, when the serialization of the snapshot fails,
  \<^verbatim>\<open>Init\<close> returns the error of the serialization, which names no kind.
\<close>

theorem Init_missing_kind_counterexample:
  "(''zeta'', \<lparr>filename = ''zeta.json'', expire = 86400, threshold = 1\<rparr>) \<in> set two_missing_types
   \<and> filename \<lparr>filename = ''zeta.json'', expire = 86400, threshold = 1\<rparr> \<noteq> []
   \<and> ''zeta'' \<notin> bootstrap_kinds
   \<and> example_marshal (bootstrap_snapshot two_missing_types example_rfc3339 0)
       = Inr ''snapshot 1970 i''
   \<and> Init two_missing_types example_rfc3339 example_marshal example_save ''repo'' 0 []
       = (Some (not_initialized ''mirror''), [])
   \<and> not_initialized ''mirror'' \<noteq> not_initialized ''zeta''
   \<and> (''mirror'', \<lparr>filename = ''mirror.json'', expire = 86400, threshold = 1\<rparr>)
       \<in> set scenario_B_types
   \<and> ''mirror'' \<notin> bootstrap_kinds
   \<and> Init scenario_B_types example_rfc3339 failing_marshal example_save ''repo'' 0 []
       = (Some (Error ''json: unsupported value''), [])
   \<and> Error ''json: unsupported value'' \<noteq> not_initialized ''mirror''"
proof -
  have 1: "(''zeta'', \<lparr>filename = ''zeta.json'', expire = 86400, threshold = 1\<rparr>)
             \<in> set two_missing_types"
    by (simp add: two_missing_types_def)
  have 2: "''zeta'' \<notin> bootstrap_kinds" "''mirror'' \<notin> bootstrap_kinds"
    by (simp_all add: bootstrap_kinds_def ManifestType_defs)
  have 3: "example_marshal (bootstrap_snapshot two_missing_types example_rfc3339 0)
             = Inr ''snapshot 1970 i''"
    by (simp add: example_marshal_def two_missing_types_def scenario_B_types_def
        scenario_defs bootstrap_snapshot_def SetVersions_def NewSnapshot_def
        example_rfc3339_def)
  have f: "List.find missing two_missing_types
             = Some (''mirror'', \<lparr>filename = ''mirror.json'', expire = 86400, threshold = 1\<rparr>)"
    by (simp add: two_missing_types_def scenario_B_types_def scenario_types_def missing_def
        bootstrap_kinds_def ManifestType_defs)
  from InitManifests_cases [of example_marshal two_missing_types example_rfc3339 0,
      THEN conjunct2, THEN conjunct1, rule_format, OF 3 f]
  have 4: "Init two_missing_types example_rfc3339 example_marshal example_save ''repo'' 0 []
       = (Some (not_initialized ''mirror''), [])"
    by (simp add: Init_def)
  have 5: "not_initialized ''mirror'' \<noteq> not_initialized ''zeta''"
    "Error ''json: unsupported value'' \<noteq> not_initialized ''mirror''"
    by (simp_all add: not_initialized_def)
  have 6: "(''mirror'', \<lparr>filename = ''mirror.json'', expire = 86400, threshold = 1\<rparr>)
       \<in> set scenario_B_types"
    by (simp add: scenario_B_types_def)
  have e: "failing_marshal (bootstrap_snapshot scenario_B_types example_rfc3339 0)
             = Inl (Error ''json: unsupported value'')"
    by (simp add: failing_marshal_def)
  from InitManifests_cases [of failing_marshal scenario_B_types example_rfc3339 0,
      THEN conjunct1, rule_format, OF e]
  have 7: "Init scenario_B_types example_rfc3339 failing_marshal example_save ''repo'' 0 []
       = (Some (Error ''json: unsupported value''), [])"
    by (simp add: Init_def)
  from 1 2 3 4 5 6 7 show ?thesis by (intro conjI) simp_all
qed

text \<open>
  C4. Let the keys of the registry be unique. After a successful bootstrap the roles of
  the root hold, for every kind of the registry with a non-empty filename, the entry with
  url \<^verbatim>\<open>"/"\<close> followed by the registry's filename of that kind, the registry's threshold
  of that kind and an empty key set; for a kind with an empty filename they hold no entry;
  and they hold no entry under any other key. The bootstrap succeeds as soon as the
  snapshot serializes and every kind with a non-empty filename is one of the four kinds
  produced: a kind with an empty filename need not be in the manifest set.
\<close>

theorem Init_roles:
  assumes "distinct (map fst types)"
  shows "(\<forall>manifests. InitManifests types rfc3339 marshal initTime = Inr manifests \<longrightarrow>
           (\<exists>root. map_of manifests ManifestTypeRoot = Some (RootManifest root)
              \<and> (\<forall>k val. (k, val) \<in> set types \<longrightarrow>
                    entries (Roles root) k =
                      (if filename val = [] then None
                       else Some \<lparr>URL = ''/'' @ filename val, Threshold = threshold val,
                                  Keys = Some Map.empty\<rparr>))
              \<and> dom (entries (Roles root)) \<subseteq> fst ` set types))
       \<and> ((\<exists>bytes. marshal (bootstrap_snapshot types rfc3339 initTime) = Inr bytes)
            \<and> (\<forall>e \<in> set types. filename (snd e) \<noteq> [] \<longrightarrow> fst e \<in> bootstrap_kinds)
          \<longrightarrow> (\<exists>manifests. InitManifests types rfc3339 marshal initTime = Inr manifests))"
proof (intro conjI allI impI)
  fix manifests
  assume "InitManifests types rfc3339 marshal initTime = Inr manifests"
  then show "\<exists>root. map_of manifests ManifestTypeRoot = Some (RootManifest root)
              \<and> (\<forall>k val. (k, val) \<in> set types \<longrightarrow>
                    entries (Roles root) k =
                      (if filename val = [] then None
                       else Some \<lparr>URL = ''/'' @ filename val, Threshold = threshold val,
                                  Keys = Some Map.empty\<rparr>))
              \<and> dom (entries (Roles root)) \<subseteq> fst ` set types"
  proof (rule InitManifests_InrE)
    fix bytes roles'
    assume r: "map_of manifests ManifestTypeRoot
       = Some (RootManifest ((NewRoot types rfc3339 initTime)\<lparr>Roles := Some roles'\<rparr>))"
      and c: "\<And>k. roles' k =
       (if k \<in> fst ` {e \<in> set types. filename (snd e) \<noteq> []}
        then Some (role_for types k) else None)"
    have a: "roles' k =
              (if filename val = [] then None
               else Some \<lparr>URL = ''/'' @ filename val, Threshold = threshold val,
                          Keys = Some Map.empty\<rparr>)"
      if kv: "(k, val) \<in> set types" for k val
    proof -
      have t: "types_at types k = val"
        using assms kv by (rule types_at_distinct)
      have "k \<in> fst ` {e \<in> set types. filename (snd e) \<noteq> []} \<longleftrightarrow> filename val \<noteq> []"
      proof
        assume "k \<in> fst ` {e \<in> set types. filename (snd e) \<noteq> []}"
        then obtain v where v: "(k, v) \<in> set types" "filename v \<noteq> []" by auto
        from assms v(1) have "types_at types k = v" by (rule types_at_distinct)
        with t v(2) show "filename val \<noteq> []" by simp
      next
        assume "filename val \<noteq> []"
        with kv show "k \<in> fst ` {e \<in> set types. filename (snd e) \<noteq> []}" by force
      qed
      then show ?thesis by (simp add: c role_for_def t)
    qed
    have b: "dom roles' \<subseteq> fst ` set types"
      by (auto simp: c dom_def split: if_splits)
    from r a b show ?thesis by simp
  qed
next
  assume "(\<exists>bytes. marshal (bootstrap_snapshot types rfc3339 initTime) = Inr bytes)
            \<and> (\<forall>e \<in> set types. filename (snd e) \<noteq> [] \<longrightarrow> fst e \<in> bootstrap_kinds)"
  then show "\<exists>manifests. InitManifests types rfc3339 marshal initTime = Inr manifests"
    using InitManifests_succeeds by blast
qed

theorem Init_roles_witness:
  "\<exists>manifests root.
     InitManifests scenario_types example_rfc3339 example_marshal 0 = Inr manifests
   \<and> map_of manifests ManifestTypeRoot = Some (RootManifest root)
   \<and> entries (Roles root) ''root''
       = Some \<lparr>URL = ''/root.json'', Threshold = 1, Keys = Some Map.empty\<rparr>
   \<and> entries (Roles root) ''timestamp''
       = Some \<lparr>URL = ''/timestamp.json'', Threshold = 1, Keys = Some Map.empty\<rparr>
   \<and> entries (Roles root) ''component'' = None
   \<and> map_of manifests ''component'' = None"
proof -
  have d: "distinct (map fst scenario_types)"
    by (simp add: scenario_types_def ManifestType_defs)
  note T = Init_roles [OF d, of example_rfc3339 example_marshal 0]
  have b: "\<exists>bytes. example_marshal (bootstrap_snapshot scenario_types example_rfc3339 0) = Inr bytes"
    by (simp add: example_marshal_def)
  have p: "\<forall>e \<in> set scenario_types. filename (snd e) \<noteq> [] \<longrightarrow> fst e \<in> bootstrap_kinds"
    by (simp add: scenario_types_def bootstrap_kinds_def)
  from T [THEN conjunct2, rule_format, OF conjI, OF b p] obtain manifests where
    m: "InitManifests scenario_types example_rfc3339 example_marshal 0 = Inr manifests" ..
  from T [THEN conjunct1, rule_format, OF m] obtain root where
    r: "map_of manifests ManifestTypeRoot = Some (RootManifest root)"
    and a: "\<forall>k val. (k, val) \<in> set scenario_types \<longrightarrow>
                    entries (Roles root) k =
                      (if filename val = [] then None
                       else Some \<lparr>URL = ''/'' @ filename val, Threshold = threshold val,
                                  Keys = Some Map.empty\<rparr>)"
    by (elim exE conjE)
  have 1: "entries (Roles root) ''root''
       = Some \<lparr>URL = ''/root.json'', Threshold = 1, Keys = Some Map.empty\<rparr>"
    using a [rule_format, of "''root''" "\<lparr>filename = ''root.json'', expire = 31536000, threshold = 1\<rparr>"]
    by (simp add: scenario_types_def ManifestType_defs)
  have 2: "entries (Roles root) ''timestamp''
       = Some \<lparr>URL = ''/timestamp.json'', Threshold = 1, Keys = Some Map.empty\<rparr>"
    using a [rule_format, of "''timestamp''" "\<lparr>filename = ''timestamp.json'', expire = 86400, threshold = 1\<rparr>"]
    by (simp add: scenario_types_def ManifestType_defs)
  have 3: "entries (Roles root) ''component'' = None"
    using a [rule_format, of "''component''" "\<lparr>filename = [], expire = 31536000, threshold = 1\<rparr>"]
    by (simp add: scenario_types_def ManifestType_defs)
  from m have "fst ` set manifests = bootstrap_kinds"
  proof (rule InitManifests_InrE)
    assume "fst ` set manifests = bootstrap_kinds"
    then show ?thesis .
  qed
  then have 4: "map_of manifests ''component'' = None"
    by (simp add: map_of_eq_None_iff bootstrap_kinds_def ManifestType_defs)
  from m r 1 2 3 4 show ?thesis by blast
qed

section \<open>The freshness pointer: \<^verbatim>\<open>SetSnapshot\<close>\<close>

lemma SetSnapshot_fresh:
  assumes "marshal s = Inr bytes"
  shows "SetSnapshot types marshal (NewTimestamp types rfc3339 initTime) s
           = ((NewTimestamp types rfc3339 initTime)\<lparr>Timestamp.Meta :=
                Some [Filename types s \<mapsto>
                  \<lparr>Hashes = Some [''sha256'' \<mapsto> ''TODO''], Length = length bytes\<rparr>]\<rparr>, None)"
  using assms by (simp add: SetSnapshot_def NewTimestamp_def)

lemma example_marshal_bootstrap:
  "example_marshal (bootstrap_snapshot scenario_types example_rfc3339 0) = Inr ''snapshot 1970 i''"
  by (simp add: example_marshal_def scenario_defs bootstrap_snapshot_def SetVersions_def
      NewSnapshot_def example_rfc3339_def)

text \<open>
  C6. When the snapshot serializes, \<^verbatim>\<open>SetSnapshot\<close> on a timestamp fresh from
  \<^verbatim>\<open>NewTimestamp\<close> succeeds and leaves exactly one entry in the timestamp's
  \<^verbatim>\<open>Meta\<close>, under the snapshot's filename, whose length is the number of bytes of the
  serialization. After a successful bootstrap the timestamp and the snapshot handed over
  for saving stand in this relation.
\<close>

theorem SetSnapshot_records_length:
  "(\<forall>bytes. marshal s = Inr bytes \<longrightarrow>
      (\<exists>t. SetSnapshot types marshal (NewTimestamp types rfc3339 initTime) s = (t, None)
         \<and> dom (entries (Timestamp.Meta t)) = {Filename types s}
         \<and> map_option Length (entries (Timestamp.Meta t) (Filename types s))
             = Some (length bytes)))
   \<and> (\<forall>manifests. InitManifests types rfc3339 marshal initTime = Inr manifests \<longrightarrow>
        (\<exists>snapshot timestamp bytes.
           map_of manifests ManifestTypeSnapshot = Some (SnapshotManifest snapshot)
         \<and> map_of manifests ManifestTypeTimestamp = Some (TimestampManifest timestamp)
         \<and> marshal snapshot = Inr bytes
         \<and> dom (entries (Timestamp.Meta timestamp)) = {Filename types snapshot}
         \<and> map_option Length (entries (Timestamp.Meta timestamp) (Filename types snapshot))
             = Some (length bytes)))"
proof (intro conjI allI impI)
  fix bytes
  assume "marshal s = Inr bytes"
  then show "\<exists>t. SetSnapshot types marshal (NewTimestamp types rfc3339 initTime) s = (t, None)
         \<and> dom (entries (Timestamp.Meta t)) = {Filename types s}
         \<and> map_option Length (entries (Timestamp.Meta t) (Filename types s))
             = Some (length bytes)"
    by (simp add: SetSnapshot_fresh)
next
  fix manifests
  assume "InitManifests types rfc3339 marshal initTime = Inr manifests"
  then show "\<exists>snapshot timestamp bytes.
           map_of manifests ManifestTypeSnapshot = Some (SnapshotManifest snapshot)
         \<and> map_of manifests ManifestTypeTimestamp = Some (TimestampManifest timestamp)
         \<and> marshal snapshot = Inr bytes
         \<and> dom (entries (Timestamp.Meta timestamp)) = {Filename types snapshot}
         \<and> map_option Length (entries (Timestamp.Meta timestamp) (Filename types snapshot))
             = Some (length bytes)"
  proof (rule InitManifests_InrE)
    fix bytes roles'
    assume "marshal (bootstrap_snapshot types rfc3339 initTime) = Inr bytes"
      "map_of manifests ManifestTypeSnapshot
         = Some (SnapshotManifest (bootstrap_snapshot types rfc3339 initTime))"
      "map_of manifests ManifestTypeTimestamp
         = Some (TimestampManifest (bootstrap_timestamp types rfc3339 initTime (length bytes)))"
    then show ?thesis by (simp add: bootstrap_timestamp_def)
  qed
qed

theorem SetSnapshot_records_length_witness:
  "example_marshal stale_snapshot = Inr ''snapshot 1970 ''
   \<and> (\<exists>t. SetSnapshot scenario_types example_marshal
             (NewTimestamp scenario_types example_rfc3339 0) stale_snapshot = (t, None)
         \<and> dom (entries (Timestamp.Meta t)) = {''snapshot.json''}
         \<and> map_option Length (entries (Timestamp.Meta t) ''snapshot.json'') = Some 14)
   \<and> (\<exists>manifests snapshot timestamp.
         InitManifests scenario_types example_rfc3339 example_marshal 0 = Inr manifests
       \<and> map_of manifests ManifestTypeSnapshot = Some (SnapshotManifest snapshot)
       \<and> map_of manifests ManifestTypeTimestamp = Some (TimestampManifest timestamp)
       \<and> example_marshal snapshot = Inr ''snapshot 1970 i''
       \<and> dom (entries (Timestamp.Meta timestamp)) = {''snapshot.json''}
       \<and> map_option Length (entries (Timestamp.Meta timestamp) ''snapshot.json'') = Some 15)"
proof -
  note T = SetSnapshot_records_length [of example_marshal _ scenario_types example_rfc3339 0]
  have b: "example_marshal stale_snapshot = Inr ''snapshot 1970 ''"
    by (simp add: example_marshal_def stale_snapshot_def ManifestType_defs)
  have f: "Filename scenario_types stale_snapshot = ''snapshot.json''"
    by (simp add: stale_snapshot_def scenario_defs)
  have len14: "length ''snapshot 1970 '' = 14" and len15: "length ''snapshot 1970 i'' = 15"
    by simp_all
  from T [of stale_snapshot, THEN conjunct1, rule_format, OF b]
  have 1: "\<exists>t. SetSnapshot scenario_types example_marshal
             (NewTimestamp scenario_types example_rfc3339 0) stale_snapshot = (t, None)
         \<and> dom (entries (Timestamp.Meta t)) = {''snapshot.json''}
         \<and> map_option Length (entries (Timestamp.Meta t) ''snapshot.json'') = Some 14"
    unfolding f len14 .
  from scenario_InitManifests obtain manifests where
    m: "InitManifests scenario_types example_rfc3339 example_marshal 0 = Inr manifests" ..
  from m have s: "map_of manifests ManifestTypeSnapshot
       = Some (SnapshotManifest (bootstrap_snapshot scenario_types example_rfc3339 0))"
  proof (rule InitManifests_InrE)
    assume "map_of manifests ManifestTypeSnapshot
       = Some (SnapshotManifest (bootstrap_snapshot scenario_types example_rfc3339 0))"
    then show ?thesis .
  qed
  from T [of stale_snapshot, THEN conjunct2, rule_format, OF m] obtain snapshot timestamp bytes
    where s': "map_of manifests ManifestTypeSnapshot = Some (SnapshotManifest snapshot)"
      and t: "map_of manifests ManifestTypeTimestamp = Some (TimestampManifest timestamp)"
      and b': "example_marshal snapshot = Inr bytes"
      and d: "dom (entries (Timestamp.Meta timestamp)) = {Filename scenario_types snapshot}"
      and l: "map_option Length (entries (Timestamp.Meta timestamp) (Filename scenario_types snapshot))
             = Some (length bytes)"
    by (elim exE conjE)
  from s s' have e: "snapshot = bootstrap_snapshot scenario_types example_rfc3339 0" by simp
  have f': "Filename scenario_types snapshot = ''snapshot.json''"
    by (simp add: e scenario_defs)
  from b' have bs: "bytes = ''snapshot 1970 i''"
    by (simp add: e example_marshal_bootstrap)
  from m s' t b' d l have 2: "\<exists>manifests snapshot timestamp.
         InitManifests scenario_types example_rfc3339 example_marshal 0 = Inr manifests
       \<and> map_of manifests ManifestTypeSnapshot = Some (SnapshotManifest snapshot)
       \<and> map_of manifests ManifestTypeTimestamp = Some (TimestampManifest timestamp)
       \<and> example_marshal snapshot = Inr ''snapshot 1970 i''
       \<and> dom (entries (Timestamp.Meta timestamp)) = {''snapshot.json''}
       \<and> map_option Length (entries (Timestamp.Meta timestamp) ''snapshot.json'') = Some 15"
    unfolding f' bs len15
    by (intro exI [of _ manifests] exI [of _ snapshot] exI [of _ timestamp] conjI)
  from b 1 2 show ?thesis by (intro conjI)
qed

text \<open>
  C7. When the serialization of the snapshot fails, \<^verbatim>\<open>SetSnapshot\<close> returns that error
  and the timestamp as it was, with its \<^verbatim>\<open>Meta\<close> untouched.
\<close>

theorem SetSnapshot_failure:
  "marshal s = Inl err \<Longrightarrow> SetSnapshot types marshal manifest s = (manifest, Some err)"
  by (simp add: SetSnapshot_def)

theorem SetSnapshot_failure_witness:
  "failing_marshal stale_snapshot = Inl (Error ''json: unsupported value'')
   \<and> SetSnapshot scenario_types failing_marshal
        (bootstrap_timestamp scenario_types example_rfc3339 0 15) stale_snapshot
       = (bootstrap_timestamp scenario_types example_rfc3339 0 15,
          Some (Error ''json: unsupported value''))"
proof -
  have f: "failing_marshal stale_snapshot = Inl (Error ''json: unsupported value'')"
    by (simp add: failing_marshal_def)
  from f SetSnapshot_failure [of failing_marshal stale_snapshot _ scenario_types
      "bootstrap_timestamp scenario_types example_rfc3339 0 15", OF f]
  show ?thesis by (intro conjI)
qed

text \<open>
  Whatever the snapshot, a successful \<^verbatim>\<open>SetSnapshot\<close> records the string \<open>TODO\<close>
  as the sha256 digest.
\<close>

lemma SetSnapshot_hash_TODO:
  "SetSnapshot types marshal manifest s = (manifest', None) \<Longrightarrow>
   recorded_hash manifest' (Filename types s) ''sha256'' = Some ''TODO''"
  by (auto simp: SetSnapshot_def recorded_hash_def split: sum.splits)

text \<open>
  C9, evaluated on the scenario registry. After the bootstrap the index is bumped from
  version 1 to version 2 and the snapshot is rebuilt by \<^verbatim>\<open>SetVersions\<close> over the
  manifest set. The ledger entry of the index goes from 1 to 2 and the serialization of
  the snapshot changes. \<^verbatim>\<open>SetSnapshot\<close> on the rebuilt snapshot succeeds, and the
  digest it records is the digest recorded for the original snapshot: the string
  \<open>TODO\<close>. The source announces the hashing (\<^verbatim>\<open>SetSnapshot hashes a snapshot manifest\<close>,
  \<^verbatim>\<open>TODO: hash the manifest\<close>) and does not do it.
\<close>

theorem SetSnapshot_hash_ignores_content:
  "\<exists>manifests index snapshot timestamp snapshot' timestamp'.
     InitManifests scenario_types example_rfc3339 example_marshal 0 = Inr manifests
   \<and> map_of manifests ManifestTypeIndex = Some (IndexManifest index)
   \<and> map_of manifests ManifestTypeSnapshot = Some (SnapshotManifest snapshot)
   \<and> map_of manifests ManifestTypeTimestamp = Some (TimestampManifest timestamp)
   \<and> Version index = 1
   \<and> snapshot' = SetVersions scenario_types snapshot
         (AList.update ManifestTypeIndex (IndexManifest (index\<lparr>Version := 2\<rparr>)) manifests)
   \<and> entries (Snapshot.Meta snapshot) ''index.json'' = Some \<lparr>FileVersion.Version = 1\<rparr>
   \<and> entries (Snapshot.Meta snapshot') ''index.json'' = Some \<lparr>FileVersion.Version = 2\<rparr>
   \<and> example_marshal snapshot = Inr ''snapshot 1970 i''
   \<and> example_marshal snapshot' = Inr ''snapshot 1970 ii''
   \<and> SetSnapshot scenario_types example_marshal timestamp snapshot' = (timestamp', None)
   \<and> recorded_hash timestamp ''snapshot.json'' ''sha256'' = Some ''TODO''
   \<and> recorded_hash timestamp' ''snapshot.json'' ''sha256'' = Some ''TODO''"
proof -
  have b: "example_marshal (bootstrap_snapshot scenario_types example_rfc3339 0)
             = Inr ''snapshot 1970 i''"
    by (rule example_marshal_bootstrap)
  from InitManifests_cases [of example_marshal scenario_types example_rfc3339 0,
      THEN conjunct2, THEN conjunct2, rule_format, OF b scenario_find_missing]
  obtain roles' where
    m: "InitManifests scenario_types example_rfc3339 example_marshal 0
          = Inr (AList.update ManifestTypeRoot
                  (RootManifest ((NewRoot scenario_types example_rfc3339 0)\<lparr>Roles := Some roles'\<rparr>))
                  (bootstrap_manifests scenario_types example_rfc3339 0 (length ''snapshot 1970 i'')))"
    by (elim exE conjE)
  define root where "root = (NewRoot scenario_types example_rfc3339 0)\<lparr>Roles := Some roles'\<rparr>"
  define index where "index = NewIndex scenario_types example_rfc3339 0"
  define snapshot where "snapshot = bootstrap_snapshot scenario_types example_rfc3339 0"
  define timestamp where "timestamp = bootstrap_timestamp scenario_types example_rfc3339 0 (length ''snapshot 1970 i'')"
  define manifests where "manifests =
     [(ManifestTypeRoot, RootManifest root), (ManifestTypeIndex, IndexManifest index),
      (ManifestTypeSnapshot, SnapshotManifest snapshot),
      (ManifestTypeTimestamp, TimestampManifest timestamp)]"
  define snapshot' where "snapshot' = SetVersions scenario_types snapshot
         (AList.update ManifestTypeIndex (IndexManifest (index\<lparr>Version := 2\<rparr>)) manifests)"
  have m': "InitManifests scenario_types example_rfc3339 example_marshal 0 = Inr manifests"
    unfolding m by (simp add: manifests_def bootstrap_manifests_def root_def index_def
        snapshot_def timestamp_def)
  have u: "AList.update ManifestTypeIndex (IndexManifest (index\<lparr>Version := 2\<rparr>)) manifests
      = [(ManifestTypeRoot, RootManifest root),
         (ManifestTypeIndex, IndexManifest (index\<lparr>Version := 2\<rparr>)),
         (ManifestTypeSnapshot, SnapshotManifest snapshot),
         (ManifestTypeTimestamp, TimestampManifest timestamp)]"
    using ManifestType_distinct by (simp add: manifests_def)
  have fn: "ValidManifest_Filename scenario_types (RootManifest root) = ''root.json''"
    "ValidManifest_Filename scenario_types (IndexManifest (index\<lparr>Version := 2\<rparr>)) = ''index.json''"
    "ValidManifest_Filename scenario_types (SnapshotManifest snapshot) = ''snapshot.json''"
    "ValidManifest_Filename scenario_types (TimestampManifest timestamp) = ''timestamp.json''"
    "Filename scenario_types snapshot = ''snapshot.json''"
    by (simp_all add: root_def index_def snapshot_def timestamp_def bootstrap_timestamp_def
        scenario_defs)
  have ms: "Snapshot.Meta snapshot' =
     Some [''root.json'' \<mapsto> \<lparr>FileVersion.Version = 1\<rparr>,
           ''index.json'' \<mapsto> \<lparr>FileVersion.Version = 1\<rparr>,
           ''root.json'' \<mapsto> \<lparr>FileVersion.Version = 1\<rparr>,
           ''index.json'' \<mapsto> \<lparr>FileVersion.Version = 2\<rparr>,
           ''snapshot.json'' \<mapsto> \<lparr>FileVersion.Version = 0\<rparr>,
           ''timestamp.json'' \<mapsto> \<lparr>FileVersion.Version = 1\<rparr>]"
    unfolding snapshot'_def u
    by (simp add: SetVersions_Meta fn)
       (simp add: root_def index_def snapshot_def timestamp_def bootstrap_timestamp_def
          scenario_types_def ManifestType_defs types_at_def)
  have 1: "entries (Snapshot.Meta snapshot) ''index.json'' = Some \<lparr>FileVersion.Version = 1\<rparr>"
    by (simp add: snapshot_def scenario_types_def ManifestType_defs types_at_def)
  have 2: "entries (Snapshot.Meta snapshot') ''index.json'' = Some \<lparr>FileVersion.Version = 2\<rparr>"
    by (simp add: ms)
  have te: "Ty snapshot' = ''snapshot''" "Expires snapshot' = ''1970''"
    by (simp_all add: snapshot'_def SetVersions_def snapshot_def bootstrap_snapshot_def
        NewSnapshot_def example_rfc3339_def scenario_types_def ManifestType_defs types_at_def)
  have 3: "example_marshal snapshot' = Inr ''snapshot 1970 ii''"
    by (simp add: example_marshal_def 2 te numeral_2_eq_2)
  have f': "Filename scenario_types snapshot' = ''snapshot.json''"
    by (simp add: Filename_def te scenario_types_def ManifestType_defs types_at_def)
  obtain timestamp' where
    4: "SetSnapshot scenario_types example_marshal timestamp snapshot' = (timestamp', None)"
    by (simp add: SetSnapshot_def 3)
  from SetSnapshot_hash_TODO [OF 4]
  have 5: "recorded_hash timestamp' ''snapshot.json'' ''sha256'' = Some ''TODO''"
    by (simp add: f')
  have 6: "recorded_hash timestamp ''snapshot.json'' ''sha256'' = Some ''TODO''"
    by (simp add: recorded_hash_def timestamp_def bootstrap_timestamp_def fn(5) [unfolded snapshot_def])
  have 7: "map_of manifests ManifestTypeIndex = Some (IndexManifest index)"
    "map_of manifests ManifestTypeSnapshot = Some (SnapshotManifest snapshot)"
    "map_of manifests ManifestTypeTimestamp = Some (TimestampManifest timestamp)"
    using ManifestType_distinct by (simp_all add: manifests_def)
  have 8: "Version index = 1" by (simp add: index_def)
  have 9: "example_marshal snapshot = Inr ''snapshot 1970 i''"
    unfolding snapshot_def by (rule b)
  from m' 7 8 snapshot'_def 1 2 9 3 4 6 5 show ?thesis
    by blast
qed

section \<open>Roles of the root: \<^verbatim>\<open>SetRole\<close>\<close>

text \<open>
  C8. Two calls of \<^verbatim>\<open>SetRole\<close> with manifests of the same kind leave the root as one
  call with either manifest leaves it: the entry under that kind is the role of that
  kind, and the keys of the roles are the keys before the calls and that kind.
\<close>

theorem SetRole_idempotent:
  assumes "Ty (Base m1) = Ty (Base m2)"
  shows "SetRole types (SetRole types manifest m1) m2 = SetRole types manifest m2
       \<and> SetRole types (SetRole types manifest m1) m2 = SetRole types manifest m1
       \<and> entries (Roles (SetRole types (SetRole types manifest m1) m2)) (Ty (Base m2))
           = Some (role_for types (Ty (Base m2)))
       \<and> dom (entries (Roles (SetRole types (SetRole types manifest m1) m2)))
           = insert (Ty (Base m2)) (dom (entries (Roles manifest)))"
  using assms by (simp add: SetRole_eq)

theorem SetRole_idempotent_witness:
  "Ty (Base (RootManifest (NewRoot scenario_types example_rfc3339 0)))
     = Ty (Base (RootManifest ((NewRoot scenario_types example_rfc3339 0)\<lparr>Version := 2\<rparr>)))
   \<and> SetRole scenario_types
        (SetRole scenario_types (NewRoot scenario_types example_rfc3339 0)
           (RootManifest (NewRoot scenario_types example_rfc3339 0)))
        (RootManifest ((NewRoot scenario_types example_rfc3339 0)\<lparr>Version := 2\<rparr>))
       = SetRole scenario_types (NewRoot scenario_types example_rfc3339 0)
           (RootManifest (NewRoot scenario_types example_rfc3339 0))
   \<and> dom (entries (Roles (SetRole scenario_types
        (SetRole scenario_types (NewRoot scenario_types example_rfc3339 0)
           (RootManifest (NewRoot scenario_types example_rfc3339 0)))
        (RootManifest ((NewRoot scenario_types example_rfc3339 0)\<lparr>Version := 2\<rparr>)))))
       = {''root''}"
proof -
  have t: "Ty (Base (RootManifest (NewRoot scenario_types example_rfc3339 0)))
     = Ty (Base (RootManifest ((NewRoot scenario_types example_rfc3339 0)\<lparr>Version := 2\<rparr>)))"
    by simp
  note T = SetRole_idempotent [OF t, of scenario_types "NewRoot scenario_types example_rfc3339 0"]
  have d: "insert (Ty (Base (RootManifest ((NewRoot scenario_types example_rfc3339 0)\<lparr>Version := 2\<rparr>))))
             (dom (entries (Roles (NewRoot scenario_types example_rfc3339 0)))) = {''root''}"
    by (simp add: NewRoot_def ManifestType_defs)
  from t T [THEN conjunct2, THEN conjunct1]
    T [THEN conjunct2, THEN conjunct2, THEN conjunct2, unfolded d]
  show ?thesis by (intro conjI)
qed

text \<open>
  C10. For every root and every manifest, after \<^verbatim>\<open>SetRole\<close> the role under the
  manifest's kind has an empty key set, whatever keys the role under that kind held
  before.
\<close>

theorem SetRole_Keys_empty:
  "\<exists>role. entries (Roles (SetRole types manifest m)) (Ty (Base m)) = Some role
     \<and> Keys role = Some Map.empty"
  by (simp add: SetRole_def)

theorem SetRole_Keys_empty_witness:
  "role_key keyed_root ManifestTypeIndex ''key-1'' = Some ''public key''
   \<and> role_key (SetRole scenario_types keyed_root
        (IndexManifest (NewIndex scenario_types example_rfc3339 0))) ManifestTypeIndex ''key-1''
       = None"
proof -
  have 1: "role_key keyed_root ManifestTypeIndex ''key-1'' = Some ''public key''"
    by (simp add: role_key_def keyed_root_def)
  from SetRole_Keys_empty [of scenario_types keyed_root
      "IndexManifest (NewIndex scenario_types example_rfc3339 0)"]
  obtain role where
    "entries (Roles (SetRole scenario_types keyed_root
        (IndexManifest (NewIndex scenario_types example_rfc3339 0))))
       (Ty (Base (IndexManifest (NewIndex scenario_types example_rfc3339 0)))) = Some role"
    and "Keys role = Some Map.empty"
    by (elim exE conjE)
  then have 2: "role_key (SetRole scenario_types keyed_root
        (IndexManifest (NewIndex scenario_types example_rfc3339 0))) ManifestTypeIndex ''key-1''
       = None"
    by (simp add: role_key_def)
  from 1 2 show ?thesis by (intro conjI)
qed

end
